theory Spec2Isabelle
  imports Complex_Main
begin

section \<open>Data model (models.go, the client file)\<close>

text \<open>
  Go strings are byte sequences, as \<open>string\<close> is here. An \<open>error\<close> is its message.
  A \<open>time.Time\<close> is an instant counted from Go's zero time, so the zero value is 0;
  \<open>uuid.Nil\<close> is 0. A \<open>float64\<close> amount is carried as a real: no operation below
  computes with it.
\<close>

type_synonym error = string
type_synonym timestamp = int
type_synonym uuid = nat

record Payment =
  p_ID :: uuid
  p_OrderID :: string
  p_CFOrderID :: string
  p_Amount :: real
  p_Currency :: string
  p_Status :: string
  p_PaymentMethod :: "string option"
  p_CustomerID :: string
  p_CustomerName :: string
  p_CustomerEmail :: string
  p_CustomerPhone :: string
  p_Description :: "string option"
  p_PaymentURL :: "string option"
  p_CFPaymentID :: "string option"
  p_PaymentTime :: "timestamp option"
  p_CreatedAt :: timestamp
  p_UpdatedAt :: timestamp

record Refund =
  r_ID :: uuid
  r_RefundID :: string
  r_CFRefundID :: string
  r_OrderID :: string
  r_CFOrderID :: string
  r_Amount :: real
  r_Status :: string
  r_Reason :: "string option"
  r_ProcessedAt :: "timestamp option"
  r_CreatedAt :: timestamp
  r_UpdatedAt :: timestamp

record Webhook =
  wh_ID :: uuid
  wh_EventType :: string
  wh_OrderID :: "string option"
  wh_Payload :: string
  wh_Status :: string
  wh_CreatedAt :: timestamp

text \<open>
  A value decoded by encoding/json into \<open>interface{}\<close>: nil, bool, float64, string,
  a slice or a map.
\<close>

datatype json =
    JNull
  | JBool bool
  | JNumber real
  | JString string
  | JArray "json list"
  | JObject "(string \<times> json) list"

record WebhookData =
  wd_Type :: string
  wd_Data :: "string \<rightharpoonup> json"
  wd_Signature :: string
  wd_Timestamp :: string

record CashfreeClient =
  ClientID :: string
  ClientSecret :: string
  Environment :: string
  BaseURL :: string

record PaymentHandler =
  cashfree :: CashfreeClient

text \<open>
  The functions of the Go standard library that the webhook path calls and whose code
  is not part of the repository are parameters of the model: the HMAC-SHA256 digest of a
  message under a key, the standard base64 encoding, \<open>json.Unmarshal\<close> into a
  \<open>WebhookData\<close>, and \<open>time.Parse\<close> with the RFC3339 layout.
\<close>

record lib =
  hmac_sha256 :: "string \<Rightarrow> string \<Rightarrow> string"
  base64_EncodeToString :: "string \<Rightarrow> string"
  json_Unmarshal :: "string \<Rightarrow> error + WebhookData"
  time_Parse_RFC3339 :: "string \<Rightarrow> error + timestamp"

section \<open>Effects and the store\<close>

datatype webhook_handler = PaymentSuccess | PaymentFailed | RefundStatus | SettlementStatus

datatype fmt_arg = ArgErr error | ArgStr string | ArgData "string \<rightharpoonup> json"

text \<open>What a request does, in the order in which it does it.\<close>

datatype effect =
    LogPrintln string
  | LogPrintf string "fmt_arg list"
  | ReadBody
  | CallVerifyWebhookSignature string string string
  | CallUnmarshal string
  | CallCreateWebhookLog Webhook
  | CallHandler webhook_handler "string \<rightharpoonup> json"
  | CallUpdatePaymentStatus string string "string option" "string option" "timestamp option"
  | CallUpdateRefundStatus string string "timestamp option"
  | CallGetAllPayments int int

text \<open>
  The world a handler runs in: the three tables it touches, the effects performed so far,
  and what the environment will answer: the outcome of the n-th statement sent to the
  database (\<open>None\<close> is success; a timeout of the request context, a lost connection
  and a violated column constraint are all errors of that statement), the n-th reading of
  a clock, the n-th fresh UUID.
\<close>

record world =
  payments :: "Payment list"
  refunds :: "Refund list"
  webhooks :: "Webhook list"
  effects :: "effect list"
  exec_at :: "nat \<Rightarrow> error option"
  n_exec :: nat
  now_at :: "nat \<Rightarrow> timestamp"
  n_now :: nat
  uuid_at :: "nat \<Rightarrow> uuid"
  n_uuid :: nat

definition emit :: "effect \<Rightarrow> world \<Rightarrow> world" where
  "emit e w = w\<lparr>effects := effects w @ [e]\<rparr>"

definition log_Println :: "string \<Rightarrow> world \<Rightarrow> world" where
  "log_Println msg w = emit (LogPrintln msg) w"

definition log_Printf :: "string \<Rightarrow> fmt_arg list \<Rightarrow> world \<Rightarrow> world" where
  "log_Printf fmt args w = emit (LogPrintf fmt args) w"

definition time_Now :: "world \<Rightarrow> timestamp \<times> world" where
  "time_Now w = (now_at w (n_now w), w\<lparr>n_now := Suc (n_now w)\<rparr>)"

definition uuid_New :: "world \<Rightarrow> uuid \<times> world" where
  "uuid_New w = (uuid_at w (n_uuid w), w\<lparr>n_uuid := Suc (n_uuid w)\<rparr>)"

definition db_Exec :: "world \<Rightarrow> error option \<times> world" where
  "db_Exec w = (exec_at w (n_exec w), w\<lparr>n_exec := Suc (n_exec w)\<rparr>)"

text \<open>The effects a run added, given the world before and the world after.\<close>

definition effects_since :: "world \<Rightarrow> world \<Rightarrow> effect list" where
  "effects_since w w' = drop (length (effects w)) (effects w')"

section \<open>Repository (repository.go, migrations.sql)\<close>

text \<open>
  \<open>CreateWebhookLog\<close>: the INSERT into webhooks. A failed statement leaves the table
  as it was.
\<close>

definition CreateWebhookLog :: "Webhook \<Rightarrow> world \<Rightarrow> error option \<times> world" where
  "CreateWebhookLog webhook w0 =
     (let w1 = emit (CallCreateWebhookLog webhook) w0;
          (new_id, w2) = uuid_New w1;
          (now, w3) = time_Now w2;
          row = webhook\<lparr>wh_ID := new_id, wh_CreatedAt := now\<rparr>;
          (err, w4) = db_Exec w3
      in case err of
           Some e \<Rightarrow> (Some e, w4)
         | None \<Rightarrow> (None, w4\<lparr>webhooks := webhooks w4 @ [row]\<rparr>))"

text \<open>
  \<open>UpdatePaymentStatus\<close>: the UPDATE of every row of payments whose order_id is the
  one given (no row is not an error). The trigger of migrations.sql overwrites updated_at
  with the database's own NOW().
\<close>

definition UpdatePaymentStatus ::
  "string \<Rightarrow> string \<Rightarrow> string option \<Rightarrow> string option \<Rightarrow> timestamp option
     \<Rightarrow> world \<Rightarrow> error option \<times> world" where
  "UpdatePaymentStatus orderID status cfPaymentID paymentMethod paymentTime w0 =
     (let w1 = emit (CallUpdatePaymentStatus orderID status cfPaymentID paymentMethod paymentTime) w0;
          (now, w2) = time_Now w1;
          (err, w3) = db_Exec w2
      in case err of
           Some e \<Rightarrow> (Some e, w3)
         | None \<Rightarrow>
             (let (db_now, w4) = time_Now w3
              in (None, w4\<lparr>payments :=
                    map (\<lambda>p. if p_OrderID p = orderID
                              then p\<lparr>p_Status := status, p_CFPaymentID := cfPaymentID,
                                     p_PaymentMethod := paymentMethod,
                                     p_PaymentTime := paymentTime, p_UpdatedAt := db_now\<rparr>
                              else p)
                        (payments w4)\<rparr>)))"

definition UpdateRefundStatus ::
  "string \<Rightarrow> string \<Rightarrow> timestamp option \<Rightarrow> world \<Rightarrow> error option \<times> world" where
  "UpdateRefundStatus refundID status processedAt w0 =
     (let w1 = emit (CallUpdateRefundStatus refundID status processedAt) w0;
          (now, w2) = time_Now w1;
          (err, w3) = db_Exec w2
      in case err of
           Some e \<Rightarrow> (Some e, w3)
         | None \<Rightarrow>
             (let (db_now, w4) = time_Now w3
              in (None, w4\<lparr>refunds :=
                    map (\<lambda>r. if r_RefundID r = refundID
                              then r\<lparr>r_Status := status, r_ProcessedAt := processedAt,
                                     r_UpdatedAt := db_now\<rparr>
                              else r)
                        (refunds w4)\<rparr>)))"

section \<open>Signature verification (the client file, VerifyWebhookSignature)\<close>

definition VerifyWebhookSignature ::
  "lib \<Rightarrow> CashfreeClient \<Rightarrow> string \<Rightarrow> string \<Rightarrow> string \<Rightarrow> bool" where
  "VerifyWebhookSignature L c signature timestamp payload =
     (let stringToSign = timestamp @ payload;
          hash = base64_EncodeToString L (hmac_sha256 L (ClientSecret c) stringToSign)
      in hash = signature)"

section \<open>Webhook handlers (handlers.go)\<close>

text \<open>
  The two-valued type assertion \<open>v, ok := x.(string)\<close> on the result of a map lookup:
  a missing key gives the nil interface, and a failed assertion gives the zero string.
\<close>

definition assert_string :: "json option \<Rightarrow> string \<times> bool" where
  "assert_string x = (case x of Some (JString s) \<Rightarrow> (s, True) | _ \<Rightarrow> ([], False))"

text \<open>
  The optional timestamp of an event: present, a string, and accepted by
  \<open>time.Parse\<close>, or nil.
\<close>

definition parse_optional_time :: "lib \<Rightarrow> json option \<Rightarrow> timestamp option" where
  "parse_optional_time L x =
     (case x of
        None \<Rightarrow> None
      | Some pt \<Rightarrow>
          (let (ptStr, ok) = assert_string (Some pt)
           in if ok
              then (case time_Parse_RFC3339 L ptStr of
                      Inr parsedTime \<Rightarrow> Some parsedTime
                    | Inl err \<Rightarrow> None)
              else None))"

definition handlePaymentSuccessWebhook :: "lib \<Rightarrow> (string \<rightharpoonup> json) \<Rightarrow> world \<Rightarrow> world" where
  "handlePaymentSuccessWebhook L data w0 =
     (let w1 = emit (CallHandler PaymentSuccess data) w0;
          (orderID, ok) = assert_string (data ''order_id'')
      in if \<not> ok then log_Println ''Missing order_id in payment success webhook'' w1
         else
           (let cfPaymentID = fst (assert_string (data ''cf_payment_id''));
                paymentMethod = fst (assert_string (data ''payment_method''));
                paymentTime = parse_optional_time L (data ''payment_time'');
                (err, w2) = UpdatePaymentStatus orderID ''SUCCESS'' (Some cfPaymentID)
                              (Some paymentMethod) paymentTime w1
            in case err of
                 Some e \<Rightarrow>
                   log_Printf ''Failed to update payment status for successful payment: %v''
                     [ArgErr e] w2
               | None \<Rightarrow> w2))"

definition handlePaymentFailedWebhook :: "(string \<rightharpoonup> json) \<Rightarrow> world \<Rightarrow> world" where
  "handlePaymentFailedWebhook data w0 =
     (let w1 = emit (CallHandler PaymentFailed data) w0;
          (orderID, ok) = assert_string (data ''order_id'')
      in if \<not> ok then log_Println ''Missing order_id in payment failed webhook'' w1
         else
           (let (err, w2) = UpdatePaymentStatus orderID ''FAILED'' None None None w1
            in case err of
                 Some e \<Rightarrow>
                   log_Printf ''Failed to update payment status for failed payment: %v''
                     [ArgErr e] w2
               | None \<Rightarrow> w2))"

definition handleRefundStatusWebhook :: "lib \<Rightarrow> (string \<rightharpoonup> json) \<Rightarrow> world \<Rightarrow> world" where
  "handleRefundStatusWebhook L data w0 =
     (let w1 = emit (CallHandler RefundStatus data) w0;
          (refundID, ok) = assert_string (data ''refund_id'')
      in if \<not> ok then log_Println ''Missing refund_id in refund status webhook'' w1
         else
           (let refundStatus = fst (assert_string (data ''refund_status''));
                processedAt = parse_optional_time L (data ''processed_at'');
                (err, w2) = UpdateRefundStatus refundID refundStatus processedAt w1
            in case err of
                 Some e \<Rightarrow> log_Printf ''Failed to update refund status: %v'' [ArgErr e] w2
               | None \<Rightarrow> w2))"

definition handleSettlementStatusWebhook :: "(string \<rightharpoonup> json) \<Rightarrow> world \<Rightarrow> world" where
  "handleSettlementStatusWebhook data w0 =
     (let w1 = emit (CallHandler SettlementStatus data) w0
      in log_Printf ''Settlement webhook received: %+v'' [ArgData data] w1)"

text \<open>
  A request as gin hands it over: the headers (\<open>GetHeader\<close> gives the empty string for
  a header that is not there) and what \<open>io.ReadAll\<close> of the body returns.
\<close>

record webhook_request =
  req_headers :: "string \<rightharpoonup> string"
  req_body :: "error + string"

datatype hval = HStr string | HInt int | HPayments "Payment list"

record response =
  resp_code :: nat
  resp_body :: "(string \<times> hval) list"

definition c_JSON :: "nat \<Rightarrow> (string \<times> hval) list \<Rightarrow> response" where
  "c_JSON code obj = \<lparr>resp_code = code, resp_body = obj\<rparr>"

definition GetHeader :: "webhook_request \<Rightarrow> string \<Rightarrow> string" where
  "GetHeader c key = (case req_headers c key of None \<Rightarrow> [] | Some v \<Rightarrow> v)"

text \<open>The \<open>switch\<close> on the event type at the end of \<open>HandleWebhook\<close>.\<close>

definition dispatch :: "lib \<Rightarrow> WebhookData \<Rightarrow> world \<Rightarrow> world" where
  "dispatch L webhookData w =
     (if wd_Type webhookData = ''PAYMENT_SUCCESS_WEBHOOK''
        then handlePaymentSuccessWebhook L (wd_Data webhookData) w
      else if wd_Type webhookData = ''PAYMENT_FAILED_WEBHOOK''
        then handlePaymentFailedWebhook (wd_Data webhookData) w
      else if wd_Type webhookData = ''REFUND_STATUS_WEBHOOK''
        then handleRefundStatusWebhook L (wd_Data webhookData) w
      else if wd_Type webhookData = ''SETTLEMENT_STATUS_WEBHOOK''
        then handleSettlementStatusWebhook (wd_Data webhookData) w
      else log_Printf ''Unknown webhook type: %s'' [ArgStr (wd_Type webhookData)] w)"

text \<open>
  The \<open>Webhook\<close> that \<open>HandleWebhook\<close> builds for the audit log: the order id is
  set when the data has an order_id that is a string; id and creation time are still the
  zero values.
\<close>

definition new_webhook :: "WebhookData \<Rightarrow> string \<Rightarrow> Webhook" where
  "new_webhook webhookData body =
     (let orderID = (case wd_Data webhookData ''order_id'' of
                       None \<Rightarrow> None
                     | Some oid \<Rightarrow>
                         (let (oidStr, ok) = assert_string (Some oid)
                          in if ok then Some oidStr else None))
      in \<lparr>wh_ID = 0, wh_EventType = wd_Type webhookData, wh_OrderID = orderID,
          wh_Payload = body, wh_Status = ''RECEIVED'', wh_CreatedAt = 0\<rparr>)"

definition HandleWebhook ::
  "lib \<Rightarrow> PaymentHandler \<Rightarrow> webhook_request \<Rightarrow> world \<Rightarrow> response \<times> world" where
  "HandleWebhook L h c w0 =
     (let signature = GetHeader c ''x-webhook-signature'';
          timestamp = GetHeader c ''x-webhook-timestamp''
      in if signature = [] \<or> timestamp = [] then
           (c_JSON 400 [(''error'', HStr ''Missing webhook headers'')],
            log_Println ''Missing webhook signature or timestamp'' w0)
         else
           (let w1 = emit ReadBody w0
            in case req_body c of
                 Inl err \<Rightarrow>
                   (c_JSON 400 [(''error'', HStr ''Failed to read request body'')],
                    log_Printf ''Failed to read webhook body: %v'' [ArgErr err] w1)
               | Inr body \<Rightarrow>
                   (let w2 = emit (CallVerifyWebhookSignature signature timestamp body) w1
                    in if \<not> VerifyWebhookSignature L (cashfree h) signature timestamp body then
                         (c_JSON 401 [(''error'', HStr ''Invalid signature'')],
                          log_Println ''Invalid webhook signature'' w2)
                       else
                         (let w3 = emit (CallUnmarshal body) w2
                          in case json_Unmarshal L body of
                               Inl err \<Rightarrow>
                                 (c_JSON 400 [(''error'', HStr ''Invalid webhook data'')],
                                  log_Printf ''Failed to parse webhook data: %v'' [ArgErr err] w3)
                             | Inr webhookData \<Rightarrow>
                                 (let webhook = new_webhook webhookData body;
                                      (err, w4) = CreateWebhookLog webhook w3;
                                      w5 = (case err of
                                              Some e \<Rightarrow>
                                                log_Printf ''Failed to log webhook: %v'' [ArgErr e] w4
                                            | None \<Rightarrow> w4);
                                      w6 = dispatch L webhookData w5
                                  in (c_JSON 200 [(''status'', HStr ''success'')], w6))))))"

section \<open>Listing payments (handlers.go, GetAllPayments)\<close>

text \<open>
  \<open>strconv.Atoi\<close> is \<open>ParseInt(s, 10, 0)\<close> converted to \<open>int\<close>, here of 64 bits:
  an optional sign, then decimal digits read by \<open>ParseUint\<close>, which stops with a
  syntax error at the first byte that is not a digit and with a range error as soon as
  the number read leaves 64 bits. The value that comes with an error is the one Go
  returns with it.
\<close>

datatype NumError = ErrSyntax | ErrRange

definition is_digit :: "char \<Rightarrow> bool" where
  "is_digit c = (48 \<le> (of_char c :: nat) \<and> (of_char c :: nat) \<le> 57)"

definition digit_of :: "char \<Rightarrow> nat" where
  "digit_of c = of_char c - 48"

definition maxUint64 :: nat where
  "maxUint64 = 18446744073709551615"

fun ParseUint_loop :: "nat \<Rightarrow> string \<Rightarrow> nat \<times> NumError option" where
  "ParseUint_loop n [] = (n, None)"
| "ParseUint_loop n (c # cs) =
     (if \<not> is_digit c then (0, Some ErrSyntax)
      else if n \<ge> maxUint64 div 10 + 1 then (maxUint64, Some ErrRange)
      else (let n1 = n * 10 + digit_of c
            in if n1 > maxUint64 then (maxUint64, Some ErrRange)
               else ParseUint_loop n1 cs))"

definition ParseUint :: "string \<Rightarrow> nat \<times> NumError option" where
  "ParseUint s = (if s = [] then (0, Some ErrSyntax) else ParseUint_loop 0 s)"

definition ParseInt :: "string \<Rightarrow> int \<times> NumError option" where
  "ParseInt s =
     (case s of
        [] \<Rightarrow> (0, Some ErrSyntax)
      | c # cs \<Rightarrow>
          (let neg = (c = CHR ''-'');
               s1 = (if c = CHR ''+'' \<or> c = CHR ''-'' then cs else s);
               (un, err) = ParseUint s1;
               cutoff = (9223372036854775808 :: nat)
           in if err = Some ErrSyntax then (0, err)
              else if \<not> neg \<and> un \<ge> cutoff then (int cutoff - 1, Some ErrRange)
              else if neg \<and> un > cutoff then (- int cutoff, Some ErrRange)
              else (if neg then - int un else int un, None)))"

definition Atoi :: "string \<Rightarrow> int \<times> NumError option" where
  "Atoi s = ParseInt s"

record query_request =
  req_query :: "string \<rightharpoonup> string"

definition DefaultQuery :: "query_request \<Rightarrow> string \<Rightarrow> string \<Rightarrow> string" where
  "DefaultQuery c key defaultValue =
     (case req_query c key of Some v \<Rightarrow> v | None \<Rightarrow> defaultValue)"

text \<open>
  The repository's query: the payments by creation time, newest first, \<open>OFFSET\<close> rows
  skipped and at most \<open>LIMIT\<close> rows returned.
\<close>

definition repo_GetAllPayments :: "int \<Rightarrow> int \<Rightarrow> world \<Rightarrow> (error + Payment list) \<times> world" where
  "repo_GetAllPayments limit offset w0 =
     (let w1 = emit (CallGetAllPayments limit offset) w0;
          (err, w2) = db_Exec w1
      in case err of
           Some e \<Rightarrow> (Inl e, w2)
         | None \<Rightarrow>
             (Inr (take (nat limit) (drop (nat offset)
                     (rev (sort_key p_CreatedAt (payments w2))))), w2))"

definition GetAllPayments :: "query_request \<Rightarrow> world \<Rightarrow> response \<times> world" where
  "GetAllPayments c w0 =
     (let limitStr = DefaultQuery c ''limit'' ''10'';
          offsetStr = DefaultQuery c ''offset'' ''0'';
          (limit0, err) = Atoi limitStr;
          limit1 = (if err \<noteq> None \<or> limit0 \<le> 0 then 10 else limit0);
          (offset0, err') = Atoi offsetStr;
          offset = (if err' \<noteq> None \<or> offset0 < 0 then 0 else offset0);
          limit = (if limit1 > 100 then 100 else limit1);
          (res, w1) = repo_GetAllPayments limit offset w0
      in case res of
           Inl e \<Rightarrow>
             (c_JSON 500 [(''error'', HStr ''Failed to retrieve payments'')],
              log_Printf ''Failed to get payments: %v'' [ArgErr e] w1)
         | Inr ps \<Rightarrow>
             (c_JSON 200 [(''payments'', HPayments ps), (''limit'', HInt limit),
                          (''offset'', HInt offset), (''count'', HInt (int (length ps)))],
              w1))"

section \<open>Vocabulary of the properties\<close>

text \<open>Kinds of effect, and the position of the first effect of a kind in a run.\<close>

definition is_audit_write :: "effect \<Rightarrow> bool" where
  "is_audit_write e = (case e of CallCreateWebhookLog _ \<Rightarrow> True | _ \<Rightarrow> False)"

definition is_dispatch :: "effect \<Rightarrow> bool" where
  "is_dispatch e = (case e of CallHandler _ _ \<Rightarrow> True | _ \<Rightarrow> False)"

definition is_store_update :: "effect \<Rightarrow> bool" where
  "is_store_update e =
     (case e of
        CallUpdatePaymentStatus _ _ _ _ _ \<Rightarrow> True
      | CallUpdateRefundStatus _ _ _ \<Rightarrow> True
      | _ \<Rightarrow> False)"

fun first_index :: "('a \<Rightarrow> bool) \<Rightarrow> 'a list \<Rightarrow> nat" where
  "first_index P [] = 0"
| "first_index P (x # xs) = (if P x then 0 else Suc (first_index P xs))"

text \<open>
  The signature the gateway computes, in the words of the specification: the base64
  text of the keyed digest of timestamp followed by body.
\<close>

definition spec_sign :: "lib \<Rightarrow> string \<Rightarrow> string \<Rightarrow> string \<Rightarrow> string" where
  "spec_sign L secret timestamp body =
     base64_EncodeToString L (hmac_sha256 L secret (timestamp @ body))"

text \<open>
  A numeric query value, in the words of the specification: an optional sign and then
  one decimal digit or more; and the integer it denotes.
\<close>

definition unsigned_part :: "string \<Rightarrow> string" where
  "unsigned_part s =
     (case s of [] \<Rightarrow> [] | c # cs \<Rightarrow> if c = CHR ''+'' \<or> c = CHR ''-'' then cs else s)"

definition numeric :: "string \<Rightarrow> bool" where
  "numeric s = (unsigned_part s \<noteq> [] \<and> list_all is_digit (unsigned_part s))"

definition digits_value :: "string \<Rightarrow> nat" where
  "digits_value ds = foldl (\<lambda>n c. n * 10 + digit_of c) 0 ds"

definition numeric_value :: "string \<Rightarrow> int" where
  "numeric_value s =
     (case s of
        [] \<Rightarrow> 0
      | c # cs \<Rightarrow> if c = CHR ''-'' then - int (digits_value (unsigned_part s))
                  else int (digits_value (unsigned_part s)))"

text \<open>The handler that the switch of \<open>HandleWebhook\<close> names for an event type.\<close>

definition known_handler :: "string \<Rightarrow> webhook_handler option" where
  "known_handler t =
     (if t = ''PAYMENT_SUCCESS_WEBHOOK'' then Some PaymentSuccess
      else if t = ''PAYMENT_FAILED_WEBHOOK'' then Some PaymentFailed
      else if t = ''REFUND_STATUS_WEBHOOK'' then Some RefundStatus
      else if t = ''SETTLEMENT_STATUS_WEBHOOK'' then Some SettlementStatus
      else None)"

section \<open>Example inputs\<close>

text \<open>
  Concrete requests and a concrete store, on which the theorems below are instantiated.
  \<open>stub_lib\<close> stands in for the library there: its digest is the key followed by the
  message (not SHA-256), its encoding is the identity, its decoder knows the two bodies
  below and its clock format one instant.
\<close>

definition body_success :: string where
  \<open>body_success = ''{"type":"PAYMENT_SUCCESS_WEBHOOK","data":{"order_id":"o1","cf_payment_id":"p1","payment_method":"card","payment_time":"2024-01-01T00:00:00Z"}}''\<close>

definition body_unknown :: string where
  \<open>body_unknown = ''{"type":"SOMETHING_UNKNOWN","data":{}}''\<close>

definition body_truncated :: string where
  \<open>body_truncated = ''{"type":''\<close>

definition data_success :: "string \<rightharpoonup> json" where
  "data_success =
     [''order_id'' \<mapsto> JString ''o1'', ''cf_payment_id'' \<mapsto> JString ''p1'',
      ''payment_method'' \<mapsto> JString ''card'',
      ''payment_time'' \<mapsto> JString ''2024-01-01T00:00:00Z'']"

definition stub_lib :: lib where
  "stub_lib =
     \<lparr>hmac_sha256 = (\<lambda>key msg. key @ msg),
      base64_EncodeToString = (\<lambda>digest. digest),
      json_Unmarshal = (\<lambda>s.
         if s = body_success then
           Inr \<lparr>wd_Type = ''PAYMENT_SUCCESS_WEBHOOK'', wd_Data = data_success,
                wd_Signature = [], wd_Timestamp = []\<rparr>
         else if s = body_unknown then
           Inr \<lparr>wd_Type = ''SOMETHING_UNKNOWN'', wd_Data = Map.empty,
                wd_Signature = [], wd_Timestamp = []\<rparr>
         else Inl ''unexpected end of JSON input''),
      time_Parse_RFC3339 = (\<lambda>s.
         if s = ''2024-01-01T00:00:00Z'' then Inr 63839664000 else Inl ''cannot parse'')\<rparr>"

definition ex_handler :: PaymentHandler where
  "ex_handler =
     \<lparr>cashfree = \<lparr>ClientID = ''test_id'', ClientSecret = ''test_secret'',
                   Environment = ''test'', BaseURL = ''https://sandbox.cashfree.com/pg''\<rparr>\<rparr>"

definition ex_request :: "string \<Rightarrow> string \<Rightarrow> webhook_request" where
  "ex_request sig body =
     \<lparr>req_headers = [''x-webhook-signature'' \<mapsto> sig, ''x-webhook-timestamp'' \<mapsto> ''1640995200''],
      req_body = Inr body\<rparr>"

definition ex_payment :: Payment where
  "ex_payment =
     \<lparr>p_ID = 1, p_OrderID = ''o1'', p_CFOrderID = ''cf1'', p_Amount = 100,
      p_Currency = ''INR'', p_Status = ''ACTIVE'', p_PaymentMethod = Some ''upi'',
      p_CustomerID = ''c1'', p_CustomerName = ''John Doe'',
      p_CustomerEmail = ''john.doe@example.com'', p_CustomerPhone = ''+919876543210'',
      p_Description = None, p_PaymentURL = None, p_CFPaymentID = Some ''old'',
      p_PaymentTime = Some 5, p_CreatedAt = 10, p_UpdatedAt = 10\<rparr>"

definition ex_refund :: Refund where
  "ex_refund =
     \<lparr>r_ID = 2, r_RefundID = ''r1'', r_CFRefundID = ''cfr1'', r_OrderID = ''o1'',
      r_CFOrderID = ''cf1'', r_Amount = 40, r_Status = ''PENDING'', r_Reason = None,
      r_ProcessedAt = None, r_CreatedAt = 20, r_UpdatedAt = 20\<rparr>"

definition ex_world :: "(nat \<Rightarrow> error option) \<Rightarrow> world" where
  "ex_world outcome =
     \<lparr>payments = [ex_payment], refunds = [ex_refund], webhooks = [], effects = [],
      exec_at = outcome, n_exec = 0, now_at = (\<lambda>n. 1000 + int n), n_now = 0,
      uuid_at = (\<lambda>n. 7 + n), n_uuid = 0\<rparr>"

definition ex_world_ok :: world where
  "ex_world_ok = ex_world (\<lambda>n. None)"

definition req_huge_limit :: query_request where
  "req_huge_limit = \<lparr>req_query = [''limit'' \<mapsto> ''9223372036854775808'']\<rparr>"

definition req_page :: query_request where
  "req_page = \<lparr>req_query = [''limit'' \<mapsto> ''250'', ''offset'' \<mapsto> ''-3'']\<rparr>"

section \<open>How the operations act on the world\<close>

lemmas prim_defs = emit_def log_Println_def log_Printf_def time_Now_def uuid_New_def db_Exec_def
lemmas handler_defs = handlePaymentSuccessWebhook_def handlePaymentFailedWebhook_def
  handleRefundStatusWebhook_def handleSettlementStatusWebhook_def

lemma CreateWebhookLog_fields:
  "fst (CreateWebhookLog wh w) = exec_at w (n_exec w)"
  "effects (snd (CreateWebhookLog wh w)) = effects w @ [CallCreateWebhookLog wh]"
  "payments (snd (CreateWebhookLog wh w)) = payments w"
  "refunds (snd (CreateWebhookLog wh w)) = refunds w"
  "webhooks (snd (CreateWebhookLog wh w)) =
     (case exec_at w (n_exec w) of
        None \<Rightarrow> webhooks w @ [wh\<lparr>wh_ID := uuid_at w (n_uuid w), wh_CreatedAt := now_at w (n_now w)\<rparr>]
      | Some e \<Rightarrow> webhooks w)"
  by (simp_all add: CreateWebhookLog_def prim_defs Let_def split: option.splits prod.splits)

lemma UpdatePaymentStatus_fields:
  "fst (UpdatePaymentStatus oid st a b t w) = exec_at w (n_exec w)"
  "effects (snd (UpdatePaymentStatus oid st a b t w)) = effects w @ [CallUpdatePaymentStatus oid st a b t]"
  "refunds (snd (UpdatePaymentStatus oid st a b t w)) = refunds w"
  "webhooks (snd (UpdatePaymentStatus oid st a b t w)) = webhooks w"
  "payments (snd (UpdatePaymentStatus oid st a b t w)) =
     (case exec_at w (n_exec w) of
        None \<Rightarrow> map (\<lambda>p. if p_OrderID p = oid
                        then p\<lparr>p_Status := st, p_CFPaymentID := a, p_PaymentMethod := b,
                               p_PaymentTime := t, p_UpdatedAt := now_at w (Suc (n_now w))\<rparr>
                        else p) (payments w)
      | Some e \<Rightarrow> payments w)"
  by (simp_all add: UpdatePaymentStatus_def prim_defs Let_def split: option.splits prod.splits)

lemma UpdateRefundStatus_fields:
  "fst (UpdateRefundStatus rid st t w) = exec_at w (n_exec w)"
  "effects (snd (UpdateRefundStatus rid st t w)) = effects w @ [CallUpdateRefundStatus rid st t]"
  "payments (snd (UpdateRefundStatus rid st t w)) = payments w"
  "webhooks (snd (UpdateRefundStatus rid st t w)) = webhooks w"
  "refunds (snd (UpdateRefundStatus rid st t w)) =
     (case exec_at w (n_exec w) of
        None \<Rightarrow> map (\<lambda>r. if r_RefundID r = rid
                        then r\<lparr>r_Status := st, r_ProcessedAt := t,
                               r_UpdatedAt := now_at w (Suc (n_now w))\<rparr>
                        else r) (refunds w)
      | Some e \<Rightarrow> refunds w)"
  by (simp_all add: UpdateRefundStatus_def prim_defs Let_def split: option.splits prod.splits)

lemma emit_fields:
  "effects (emit e w) = effects w @ [e]"
  "payments (emit e w) = payments w"
  "refunds (emit e w) = refunds w"
  "webhooks (emit e w) = webhooks w"
  "exec_at (emit e w) = exec_at w"
  "n_exec (emit e w) = n_exec w"
  "now_at (emit e w) = now_at w"
  "n_now (emit e w) = n_now w"
  "uuid_at (emit e w) = uuid_at w"
  "n_uuid (emit e w) = n_uuid w"
  by (simp_all add: emit_def)

text \<open>handlePaymentSuccessWebhook with an order id\<close>

lemma hps_with_order:
  assumes "data ''order_id'' = Some (JString oid)"
  shows "effects (handlePaymentSuccessWebhook L data w) =
           effects w @ [CallHandler PaymentSuccess data,
                        CallUpdatePaymentStatus oid ''SUCCESS''
                          (Some (fst (assert_string (data ''cf_payment_id''))))
                          (Some (fst (assert_string (data ''payment_method''))))
                          (parse_optional_time L (data ''payment_time''))]
           @ (case exec_at w (n_exec w) of
                None \<Rightarrow> []
              | Some e \<Rightarrow> [LogPrintf ''Failed to update payment status for successful payment: %v'' [ArgErr e]])"
    and "payments (handlePaymentSuccessWebhook L data w) =
           (case exec_at w (n_exec w) of
              None \<Rightarrow> map (\<lambda>p. if p_OrderID p = oid
                        then p\<lparr>p_Status := ''SUCCESS'',
                               p_CFPaymentID := Some (fst (assert_string (data ''cf_payment_id''))),
                               p_PaymentMethod := Some (fst (assert_string (data ''payment_method''))),
                               p_PaymentTime := parse_optional_time L (data ''payment_time''),
                               p_UpdatedAt := now_at w (Suc (n_now w))\<rparr>
                        else p) (payments w)
            | Some e \<Rightarrow> payments w)"
  using assms
  by (simp_all add: handlePaymentSuccessWebhook_def assert_string_def[of "Some (JString oid)"]
        UpdatePaymentStatus_fields emit_fields log_Printf_def log_Println_def Let_def
        split_beta split: option.splits)


lemma handler_effects:
  "\<exists>es. effects (handlePaymentSuccessWebhook L d w) = effects w @ CallHandler PaymentSuccess d # es
     \<and> (\<forall>e\<in>set es. \<not> is_dispatch e \<and> \<not> is_audit_write e)"
  "\<exists>es. effects (handlePaymentFailedWebhook d w) = effects w @ CallHandler PaymentFailed d # es
     \<and> (\<forall>e\<in>set es. \<not> is_dispatch e \<and> \<not> is_audit_write e)"
  "\<exists>es. effects (handleRefundStatusWebhook L d w) = effects w @ CallHandler RefundStatus d # es
     \<and> (\<forall>e\<in>set es. \<not> is_dispatch e \<and> \<not> is_audit_write e)"
  "\<exists>es. effects (handleSettlementStatusWebhook d w) = effects w @ CallHandler SettlementStatus d # es
     \<and> (\<forall>e\<in>set es. \<not> is_dispatch e \<and> \<not> is_audit_write e)"
  by (auto simp add: handler_defs UpdatePaymentStatus_fields UpdateRefundStatus_fields emit_fields
        log_Printf_def log_Println_def Let_def split_beta is_dispatch_def is_audit_write_def
        split: option.splits)

lemma dispatch_known:
  assumes "known_handler (wd_Type wd) = Some H"
  shows "\<exists>es. effects (dispatch L wd w) = effects w @ CallHandler H (wd_Data wd) # es
     \<and> (\<forall>e\<in>set es. \<not> is_dispatch e \<and> \<not> is_audit_write e)"
  using assms handler_effects(1)[of L "wd_Data wd" w] handler_effects(2)[of "wd_Data wd" w]
    handler_effects(3)[of L "wd_Data wd" w] handler_effects(4)[of "wd_Data wd" w]
  by (auto simp add: dispatch_def known_handler_def split: if_splits)

lemma dispatch_unknown:
  assumes "known_handler (wd_Type wd) = None"
  shows "dispatch L wd w = log_Printf ''Unknown webhook type: %s'' [ArgStr (wd_Type wd)] w"
  using assms by (simp add: dispatch_def known_handler_def split: if_splits)

lemma dispatch_effects:
  "\<exists>es. effects (dispatch L wd w) = effects w @ es \<and> es \<noteq> []
      \<and> (\<forall>e\<in>set es. \<not> is_audit_write e)
      \<and> filter is_dispatch es =
           (case known_handler (wd_Type wd) of
              None \<Rightarrow> []
            | Some H \<Rightarrow> [CallHandler H (wd_Data wd)])"
proof (cases "known_handler (wd_Type wd)")
  case None
  then show ?thesis
    by (simp add: dispatch_unknown log_Printf_def emit_fields is_audit_write_def is_dispatch_def)
next
  case (Some H)
  from dispatch_known[OF Some, of L w] obtain es where
    es: "effects (dispatch L wd w) = effects w @ CallHandler H (wd_Data wd) # es"
        "\<forall>e\<in>set es. \<not> is_dispatch e \<and> \<not> is_audit_write e"
    by blast
  have "filter is_dispatch es = []" using es(2) by (simp add: filter_empty_conv)
  then show ?thesis using es Some
    by (simp add: is_dispatch_def is_audit_write_def)
qed

text \<open>The run of HandleWebhook once headers, body, signature and decoding are fine.\<close>

lemma HandleWebhook_accepted:
  assumes "GetHeader c ''x-webhook-signature'' = signature" "signature \<noteq> []"
    and "GetHeader c ''x-webhook-timestamp'' = timestamp" "timestamp \<noteq> []"
    and "req_body c = Inr body"
    and "VerifyWebhookSignature L (cashfree h) signature timestamp body"
    and "json_Unmarshal L body = Inr wd"
  shows "HandleWebhook L h c w =
     (c_JSON 200 [(''status'', HStr ''success'')],
      dispatch L wd
        (let r = CreateWebhookLog (new_webhook wd body)
                   (emit (CallUnmarshal body)
                     (emit (CallVerifyWebhookSignature signature timestamp body) (emit ReadBody w)))
         in case fst r of
              Some e \<Rightarrow> log_Printf ''Failed to log webhook: %v'' [ArgErr e] (snd r)
            | None \<Rightarrow> snd r))"
  using assms by (simp add: HandleWebhook_def Let_def split_beta)

lemma HandleWebhook_accepted_effects:
  assumes "GetHeader c ''x-webhook-signature'' = signature" "signature \<noteq> []"
    and "GetHeader c ''x-webhook-timestamp'' = timestamp" "timestamp \<noteq> []"
    and "req_body c = Inr body"
    and "VerifyWebhookSignature L (cashfree h) signature timestamp body"
    and "json_Unmarshal L body = Inr wd"
  shows "\<exists>es. effects_since w (snd (HandleWebhook L h c w)) =
            [ReadBody, CallVerifyWebhookSignature signature timestamp body, CallUnmarshal body,
             CallCreateWebhookLog (new_webhook wd body)] @ es
          \<and> es \<noteq> [] \<and> (\<forall>e\<in>set es. \<not> is_audit_write e)
          \<and> filter is_dispatch es =
               (case known_handler (wd_Type wd) of
                  None \<Rightarrow> []
                | Some H \<Rightarrow> [CallHandler H (wd_Data wd)])"
proof -
  let ?w3 = "emit (CallUnmarshal body)
               (emit (CallVerifyWebhookSignature signature timestamp body) (emit ReadBody w))"
  let ?r = "CreateWebhookLog (new_webhook wd body) ?w3"
  let ?w5 = "case fst ?r of Some e \<Rightarrow> log_Printf ''Failed to log webhook: %v'' [ArgErr e] (snd ?r)
             | None \<Rightarrow> snd ?r"
  let ?lg = "case exec_at w (n_exec w) of Some e \<Rightarrow> [LogPrintf ''Failed to log webhook: %v'' [ArgErr e]]
             | None \<Rightarrow> []"
  have w5: "effects ?w5 = effects w @ [ReadBody, CallVerifyWebhookSignature signature timestamp body,
              CallUnmarshal body, CallCreateWebhookLog (new_webhook wd body)] @ ?lg"
    by (simp add: CreateWebhookLog_fields emit_fields log_Printf_def split: option.splits)
  from dispatch_effects[of L wd ?w5] obtain es where
    es: "effects (dispatch L wd ?w5) = effects ?w5 @ es" "es \<noteq> []"
        "\<forall>e\<in>set es. \<not> is_audit_write e"
        "filter is_dispatch es =
           (case known_handler (wd_Type wd) of None \<Rightarrow> [] | Some H \<Rightarrow> [CallHandler H (wd_Data wd)])"
    by blast
  have "snd (HandleWebhook L h c w) = dispatch L wd ?w5"
    using HandleWebhook_accepted[OF assms, of w] by (simp add: Let_def)
  then have "effects_since w (snd (HandleWebhook L h c w)) =
      [ReadBody, CallVerifyWebhookSignature signature timestamp body,
              CallUnmarshal body, CallCreateWebhookLog (new_webhook wd body)] @ (?lg @ es)"
    using es(1) w5 by (simp add: effects_since_def)
  moreover have "?lg @ es \<noteq> []" using es(2) by simp
  moreover have "\<forall>e\<in>set (?lg @ es). \<not> is_audit_write e"
    using es(3) by (auto simp add: is_audit_write_def split: option.splits)
  moreover have "filter is_dispatch (?lg @ es) = filter is_dispatch es"
    by (simp add: is_dispatch_def split: option.splits)
  ultimately show ?thesis using es(4) by metis
qed

section \<open>The webhook endpoint: rejected requests\<close>

text \<open>
  Claim C4. When the header x-webhook-signature or the header x-webhook-timestamp is
  absent or empty, \<open>HandleWebhook\<close> answers 400 whatever the body is (the body is any
  result of reading it, an error included), and it does so before anything else: the only
  effect of the request is the log line, so the signature is not verified, the body is
  neither read nor decoded, \<open>CreateWebhookLog\<close> is not called, and the three tables are
  as they were.
\<close>

theorem HandleWebhook_missing_header:
  assumes "req_headers c ''x-webhook-signature'' = None
             \<or> req_headers c ''x-webhook-signature'' = Some []
             \<or> req_headers c ''x-webhook-timestamp'' = None
             \<or> req_headers c ''x-webhook-timestamp'' = Some []"
  shows "fst (HandleWebhook L h c w) =
           \<lparr>resp_code = 400, resp_body = [(''error'', HStr ''Missing webhook headers'')]\<rparr>
       \<and> effects_since w (snd (HandleWebhook L h c w)) =
           [LogPrintln ''Missing webhook signature or timestamp'']
       \<and> webhooks (snd (HandleWebhook L h c w)) = webhooks w
       \<and> payments (snd (HandleWebhook L h c w)) = payments w
       \<and> refunds (snd (HandleWebhook L h c w)) = refunds w"
proof -
  have "GetHeader c ''x-webhook-signature'' = [] \<or> GetHeader c ''x-webhook-timestamp'' = []"
    using assms by (auto simp add: GetHeader_def)
  then show ?thesis
    by (auto simp add: HandleWebhook_def Let_def c_JSON_def log_Println_def emit_fields
          effects_since_def)
qed

text \<open>The theorem at a request that carries a signature and no timestamp.\<close>

theorem HandleWebhook_missing_header_witness:
  "req_headers \<lparr>req_headers = [''x-webhook-signature'' \<mapsto> ''c2ln''], req_body = Inr body_success\<rparr>
      ''x-webhook-timestamp'' = None
   \<and> resp_code (fst (HandleWebhook stub_lib ex_handler
        \<lparr>req_headers = [''x-webhook-signature'' \<mapsto> ''c2ln''], req_body = Inr body_success\<rparr>
        (ex_world (\<lambda>n. None)))) = 400
   \<and> webhooks (snd (HandleWebhook stub_lib ex_handler
        \<lparr>req_headers = [''x-webhook-signature'' \<mapsto> ''c2ln''], req_body = Inr body_success\<rparr>
        (ex_world (\<lambda>n. None)))) = []"
proof -
  let ?c = "\<lparr>req_headers = [''x-webhook-signature'' \<mapsto> ''c2ln''], req_body = Inr body_success\<rparr>"
  have h: "req_headers ?c ''x-webhook-timestamp'' = None" by simp
  from h have h': "req_headers ?c ''x-webhook-signature'' = None
             \<or> req_headers ?c ''x-webhook-signature'' = Some []
             \<or> req_headers ?c ''x-webhook-timestamp'' = None
             \<or> req_headers ?c ''x-webhook-timestamp'' = Some []" by blast
  show ?thesis
    using HandleWebhook_missing_header[OF h', of stub_lib ex_handler "ex_world (\<lambda>n. None)"] h
    by (simp add: ex_world_def)
qed

text \<open>
  Claim C3. When both headers are there, the body has been read and the base64 text of the
  keyed digest of timestamp followed by body is not the signature header,
  \<open>HandleWebhook\<close> answers 401 with the error "Invalid signature". The effects of the
  request are the reading of the body, the verification and one log line: the body is not
  decoded, no event handler runs, \<open>CreateWebhookLog\<close> is not called and the tables are
  as they were.
\<close>

theorem HandleWebhook_bad_signature:
  assumes "req_headers c ''x-webhook-signature'' = Some signature" and "signature \<noteq> []"
    and "req_headers c ''x-webhook-timestamp'' = Some timestamp" and "timestamp \<noteq> []"
    and "req_body c = Inr body"
    and "base64_EncodeToString L (hmac_sha256 L (ClientSecret (cashfree h)) (timestamp @ body))
           \<noteq> signature"
  shows "fst (HandleWebhook L h c w) =
           \<lparr>resp_code = 401, resp_body = [(''error'', HStr ''Invalid signature'')]\<rparr>
       \<and> effects_since w (snd (HandleWebhook L h c w)) =
           [ReadBody, CallVerifyWebhookSignature signature timestamp body,
            LogPrintln ''Invalid webhook signature'']
       \<and> webhooks (snd (HandleWebhook L h c w)) = webhooks w
       \<and> payments (snd (HandleWebhook L h c w)) = payments w
       \<and> refunds (snd (HandleWebhook L h c w)) = refunds w"
  using assms
  by (simp add: HandleWebhook_def GetHeader_def VerifyWebhookSignature_def Let_def c_JSON_def
        log_Println_def emit_fields effects_since_def)

text \<open>The theorem at the request of the repository's own test, signed "mock_signature".\<close>

theorem HandleWebhook_bad_signature_witness:
  "base64_EncodeToString stub_lib
       (hmac_sha256 stub_lib (ClientSecret (cashfree ex_handler)) (''1640995200'' @ body_success))
     \<noteq> ''mock_signature''
   \<and> fst (HandleWebhook stub_lib ex_handler (ex_request ''mock_signature'' body_success)
            (ex_world (\<lambda>n. None))) =
       \<lparr>resp_code = 401, resp_body = [(''error'', HStr ''Invalid signature'')]\<rparr>
   \<and> effects (snd (HandleWebhook stub_lib ex_handler (ex_request ''mock_signature'' body_success)
            (ex_world (\<lambda>n. None)))) =
       [ReadBody, CallVerifyWebhookSignature ''mock_signature'' ''1640995200'' body_success,
        LogPrintln ''Invalid webhook signature'']
   \<and> webhooks (snd (HandleWebhook stub_lib ex_handler (ex_request ''mock_signature'' body_success)
            (ex_world (\<lambda>n. None)))) = []"
proof -
  let ?c = "ex_request ''mock_signature'' body_success"
  have h1: "req_headers ?c ''x-webhook-signature'' = Some ''mock_signature''"
    by (simp add: ex_request_def)
  have h2: "''mock_signature'' \<noteq> []" by simp
  have h3: "req_headers ?c ''x-webhook-timestamp'' = Some ''1640995200''"
    by (simp add: ex_request_def)
  have h4: "''1640995200'' \<noteq> []" by simp
  have h5: "req_body ?c = Inr body_success" by (simp add: ex_request_def)
  have h6: "base64_EncodeToString stub_lib
       (hmac_sha256 stub_lib (ClientSecret (cashfree ex_handler)) (''1640995200'' @ body_success))
     \<noteq> ''mock_signature''"
    by (simp add: stub_lib_def ex_handler_def)
  show ?thesis
    using HandleWebhook_bad_signature[OF h1 h2 h3 h4 h5 h6, of "ex_world (\<lambda>n. None)"] h6
    by (simp add: ex_world_def effects_since_def)
qed

text \<open>
  Claim C5. When the signature is the right one and \<open>json.Unmarshal\<close> of the body
  returns an error (as it does on a body that is not JSON), \<open>HandleWebhook\<close> answers 400
  with the error "Invalid webhook data"; \<open>CreateWebhookLog\<close> is not called and the
  webhooks table is as it was.
\<close>

theorem HandleWebhook_undecodable_body:
  assumes "req_headers c ''x-webhook-signature'' = Some signature" and "signature \<noteq> []"
    and "req_headers c ''x-webhook-timestamp'' = Some timestamp" and "timestamp \<noteq> []"
    and "req_body c = Inr body"
    and "VerifyWebhookSignature L (cashfree h) signature timestamp body"
    and "json_Unmarshal L body = Inl err"
  shows "fst (HandleWebhook L h c w) =
           \<lparr>resp_code = 400, resp_body = [(''error'', HStr ''Invalid webhook data'')]\<rparr>
       \<and> effects_since w (snd (HandleWebhook L h c w)) =
           [ReadBody, CallVerifyWebhookSignature signature timestamp body, CallUnmarshal body,
            LogPrintf ''Failed to parse webhook data: %v'' [ArgErr err]]
       \<and> webhooks (snd (HandleWebhook L h c w)) = webhooks w
       \<and> payments (snd (HandleWebhook L h c w)) = payments w
       \<and> refunds (snd (HandleWebhook L h c w)) = refunds w"
  using assms
  by (simp add: HandleWebhook_def GetHeader_def Let_def c_JSON_def
        log_Printf_def emit_fields effects_since_def)

text \<open>The theorem at a correctly signed body that stops in the middle of an object.\<close>

theorem HandleWebhook_undecodable_body_witness:
  "VerifyWebhookSignature stub_lib (cashfree ex_handler)
       (spec_sign stub_lib ''test_secret'' ''1640995200'' body_truncated) ''1640995200'' body_truncated
   \<and> json_Unmarshal stub_lib body_truncated = Inl ''unexpected end of JSON input''
   \<and> resp_code (fst (HandleWebhook stub_lib ex_handler
        (ex_request (spec_sign stub_lib ''test_secret'' ''1640995200'' body_truncated) body_truncated)
        (ex_world (\<lambda>n. None)))) = 400
   \<and> webhooks (snd (HandleWebhook stub_lib ex_handler
        (ex_request (spec_sign stub_lib ''test_secret'' ''1640995200'' body_truncated) body_truncated)
        (ex_world (\<lambda>n. None)))) = []"
proof -
  let ?s = "spec_sign stub_lib ''test_secret'' ''1640995200'' body_truncated"
  let ?c = "ex_request ?s body_truncated"
  have h1: "req_headers ?c ''x-webhook-signature'' = Some ?s"
    by (simp add: ex_request_def)
  have h2: "?s \<noteq> []" by (simp add: spec_sign_def stub_lib_def)
  have h3: "req_headers ?c ''x-webhook-timestamp'' = Some ''1640995200''"
    by (simp add: ex_request_def)
  have h4: "''1640995200'' \<noteq> []" by simp
  have h5: "req_body ?c = Inr body_truncated" by (simp add: ex_request_def)
  have h6: "VerifyWebhookSignature stub_lib (cashfree ex_handler) ?s ''1640995200'' body_truncated"
    by (simp add: VerifyWebhookSignature_def spec_sign_def stub_lib_def ex_handler_def)
  have h7: "json_Unmarshal stub_lib body_truncated = Inl ''unexpected end of JSON input''"
    by (simp add: stub_lib_def body_truncated_def body_success_def body_unknown_def)
  show ?thesis
    using HandleWebhook_undecodable_body[OF h1 h2 h3 h4 h5 h6 h7, of "ex_world (\<lambda>n. None)"] h6 h7
    by (simp add: ex_world_def)
qed

section \<open>The webhook endpoint: accepted requests\<close>

text \<open>
  Claim C2. On a request whose headers are there, whose body is read, whose signature
  verifies and whose body \<open>json.Unmarshal\<close> decodes, the call of
  \<open>CreateWebhookLog\<close> (with the event type, the order id if it is a string, the raw
  body and the status RECEIVED) is among the effects of the request and comes before the
  first dispatch of an event handler, and the response is 200 with the body
  \<open>{"status":"success"}\<close>. The world \<open>w\<close> is arbitrary, and with it the outcome
  of every statement sent to the database: the response is the same whether the insert of
  the log row or the update of the projection fails or not.
\<close>

theorem HandleWebhook_audit_before_dispatch:
  assumes "req_headers c ''x-webhook-signature'' = Some signature" and "signature \<noteq> []"
    and "req_headers c ''x-webhook-timestamp'' = Some timestamp" and "timestamp \<noteq> []"
    and "req_body c = Inr body"
    and "VerifyWebhookSignature L (cashfree h) signature timestamp body"
    and "json_Unmarshal L body = Inr webhookData"
  shows "fst (HandleWebhook L h c w) =
           \<lparr>resp_code = 200, resp_body = [(''status'', HStr ''success'')]\<rparr>
       \<and> first_index is_audit_write (effects_since w (snd (HandleWebhook L h c w)))
            < length (effects_since w (snd (HandleWebhook L h c w)))
       \<and> effects_since w (snd (HandleWebhook L h c w))
            ! first_index is_audit_write (effects_since w (snd (HandleWebhook L h c w)))
          = CallCreateWebhookLog (new_webhook webhookData body)
       \<and> first_index is_audit_write (effects_since w (snd (HandleWebhook L h c w)))
            < first_index is_dispatch (effects_since w (snd (HandleWebhook L h c w)))"
proof -
  have g1: "GetHeader c ''x-webhook-signature'' = signature"
    and g2: "GetHeader c ''x-webhook-timestamp'' = timestamp"
    using assms(1,3) by (simp_all add: GetHeader_def)
  note acc = g1 assms(2) g2 assms(4) assms(5) assms(6) assms(7)
  have resp: "fst (HandleWebhook L h c w) =
           \<lparr>resp_code = 200, resp_body = [(''status'', HStr ''success'')]\<rparr>"
    using HandleWebhook_accepted[OF acc, of w] by (simp add: c_JSON_def)
  from HandleWebhook_accepted_effects[OF acc, of w] obtain es where
    new: "effects_since w (snd (HandleWebhook L h c w)) =
            [ReadBody, CallVerifyWebhookSignature signature timestamp body, CallUnmarshal body,
             CallCreateWebhookLog (new_webhook webhookData body)] @ es"
    by blast
  have a: "first_index is_audit_write (effects_since w (snd (HandleWebhook L h c w))) = 3"
    unfolding new by (simp add: is_audit_write_def)
  have d: "3 < first_index is_dispatch (effects_since w (snd (HandleWebhook L h c w)))"
    unfolding new by (simp add: is_dispatch_def)
  show ?thesis using resp a d unfolding new by simp
qed

text \<open>
  The theorem at a signed PAYMENT_SUCCESS event, in a world whose database refuses every
  statement.
\<close>

theorem HandleWebhook_audit_before_dispatch_witness:
  "VerifyWebhookSignature stub_lib (cashfree ex_handler)
       (spec_sign stub_lib ''test_secret'' ''1640995200'' body_success) ''1640995200'' body_success
   \<and> exec_at (ex_world (\<lambda>n. Some ''context deadline exceeded'')) 0
        = Some ''context deadline exceeded''
   \<and> fst (HandleWebhook stub_lib ex_handler
        (ex_request (spec_sign stub_lib ''test_secret'' ''1640995200'' body_success) body_success)
        (ex_world (\<lambda>n. Some ''context deadline exceeded''))) =
       \<lparr>resp_code = 200, resp_body = [(''status'', HStr ''success'')]\<rparr>
   \<and> first_index is_audit_write (effects (snd (HandleWebhook stub_lib ex_handler
        (ex_request (spec_sign stub_lib ''test_secret'' ''1640995200'' body_success) body_success)
        (ex_world (\<lambda>n. Some ''context deadline exceeded'')))))
     < first_index is_dispatch (effects (snd (HandleWebhook stub_lib ex_handler
        (ex_request (spec_sign stub_lib ''test_secret'' ''1640995200'' body_success) body_success)
        (ex_world (\<lambda>n. Some ''context deadline exceeded'')))))"
proof -
  let ?s = "spec_sign stub_lib ''test_secret'' ''1640995200'' body_success"
  let ?c = "ex_request ?s body_success"
  let ?w = "ex_world (\<lambda>n. Some ''context deadline exceeded'')"
  have h1: "req_headers ?c ''x-webhook-signature'' = Some ?s"
    by (simp add: ex_request_def)
  have h2: "?s \<noteq> []" by (simp add: spec_sign_def stub_lib_def)
  have h3: "req_headers ?c ''x-webhook-timestamp'' = Some ''1640995200''"
    by (simp add: ex_request_def)
  have h4: "''1640995200'' \<noteq> []" by simp
  have h5: "req_body ?c = Inr body_success" by (simp add: ex_request_def)
  have h6: "VerifyWebhookSignature stub_lib (cashfree ex_handler) ?s ''1640995200'' body_success"
    by (simp add: VerifyWebhookSignature_def spec_sign_def stub_lib_def ex_handler_def)
  have h7: "json_Unmarshal stub_lib body_success =
      Inr \<lparr>wd_Type = ''PAYMENT_SUCCESS_WEBHOOK'', wd_Data = data_success,
                wd_Signature = [], wd_Timestamp = []\<rparr>"
    by (simp add: stub_lib_def)
  have e: "effects_since ?w (snd (HandleWebhook stub_lib ex_handler ?c ?w))
             = effects (snd (HandleWebhook stub_lib ex_handler ?c ?w))"
    by (simp add: effects_since_def ex_world_def)
  show ?thesis
    using HandleWebhook_audit_before_dispatch[OF h1 h2 h3 h4 h5 h6 h7, of ?w] h6
    unfolding e by (simp add: ex_world_def)
qed

lemma known_handler_None_iff:
  "known_handler t = None \<longleftrightarrow>
     t \<noteq> ''PAYMENT_SUCCESS_WEBHOOK'' \<and> t \<noteq> ''PAYMENT_FAILED_WEBHOOK''
     \<and> t \<noteq> ''REFUND_STATUS_WEBHOOK'' \<and> t \<noteq> ''SETTLEMENT_STATUS_WEBHOOK''"
  by (simp add: known_handler_def)

lemma HandleWebhook_unknown_type:
  assumes "GetHeader c ''x-webhook-signature'' = signature" "signature \<noteq> []"
    and "GetHeader c ''x-webhook-timestamp'' = timestamp" "timestamp \<noteq> []"
    and "req_body c = Inr body"
    and "VerifyWebhookSignature L (cashfree h) signature timestamp body"
    and "json_Unmarshal L body = Inr wd"
    and "known_handler (wd_Type wd) = None"
  shows "effects_since w (snd (HandleWebhook L h c w)) =
           [ReadBody, CallVerifyWebhookSignature signature timestamp body, CallUnmarshal body,
            CallCreateWebhookLog (new_webhook wd body)]
           @ (case exec_at w (n_exec w) of
                None \<Rightarrow> []
              | Some e \<Rightarrow> [LogPrintf ''Failed to log webhook: %v'' [ArgErr e]])
           @ [LogPrintf ''Unknown webhook type: %s'' [ArgStr (wd_Type wd)]]"
    and "payments (snd (HandleWebhook L h c w)) = payments w"
    and "refunds (snd (HandleWebhook L h c w)) = refunds w"
    and "webhooks (snd (HandleWebhook L h c w)) =
           (case exec_at w (n_exec w) of
              None \<Rightarrow> webhooks w @ [(new_webhook wd body)
                         \<lparr>wh_ID := uuid_at w (n_uuid w), wh_CreatedAt := now_at w (n_now w)\<rparr>]
            | Some e \<Rightarrow> webhooks w)"
  using HandleWebhook_accepted[OF assms(1-7), of w] assms(8)
  by (simp_all add: dispatch_unknown Let_def CreateWebhookLog_fields emit_fields log_Printf_def
        effects_since_def split: option.splits)

text \<open>
  Claim C6. On an accepted request (headers, body, signature and decoding are fine) the
  response is 200 and the handler is chosen by comparing the type field with four
  strings: for PAYMENT_SUCCESS_WEBHOOK, PAYMENT_FAILED_WEBHOOK, REFUND_STATUS_WEBHOOK and
  SETTLEMENT_STATUS_WEBHOOK, the handler of that name is dispatched, on the data of the
  event, and it is the only handler dispatched. For every other type no handler is
  dispatched and no update is sent to the store, the last effect is the log line
  "Unknown webhook type", the payments and the refunds are as they were, and the webhooks
  table has gained the one audit row (or nothing, if its insert failed).
\<close>

theorem HandleWebhook_dispatch_by_type:
  assumes "req_headers c ''x-webhook-signature'' = Some signature" and "signature \<noteq> []"
    and "req_headers c ''x-webhook-timestamp'' = Some timestamp" and "timestamp \<noteq> []"
    and "req_body c = Inr body"
    and "VerifyWebhookSignature L (cashfree h) signature timestamp body"
    and "json_Unmarshal L body = Inr webhookData"
  shows "fst (HandleWebhook L h c w) =
           \<lparr>resp_code = 200, resp_body = [(''status'', HStr ''success'')]\<rparr>
       \<and> (wd_Type webhookData = ''PAYMENT_SUCCESS_WEBHOOK'' \<longrightarrow>
            filter is_dispatch (effects_since w (snd (HandleWebhook L h c w))) =
              [CallHandler PaymentSuccess (wd_Data webhookData)])
       \<and> (wd_Type webhookData = ''PAYMENT_FAILED_WEBHOOK'' \<longrightarrow>
            filter is_dispatch (effects_since w (snd (HandleWebhook L h c w))) =
              [CallHandler PaymentFailed (wd_Data webhookData)])
       \<and> (wd_Type webhookData = ''REFUND_STATUS_WEBHOOK'' \<longrightarrow>
            filter is_dispatch (effects_since w (snd (HandleWebhook L h c w))) =
              [CallHandler RefundStatus (wd_Data webhookData)])
       \<and> (wd_Type webhookData = ''SETTLEMENT_STATUS_WEBHOOK'' \<longrightarrow>
            filter is_dispatch (effects_since w (snd (HandleWebhook L h c w))) =
              [CallHandler SettlementStatus (wd_Data webhookData)])
       \<and> (wd_Type webhookData \<noteq> ''PAYMENT_SUCCESS_WEBHOOK''
            \<and> wd_Type webhookData \<noteq> ''PAYMENT_FAILED_WEBHOOK''
            \<and> wd_Type webhookData \<noteq> ''REFUND_STATUS_WEBHOOK''
            \<and> wd_Type webhookData \<noteq> ''SETTLEMENT_STATUS_WEBHOOK'' \<longrightarrow>
            filter is_dispatch (effects_since w (snd (HandleWebhook L h c w))) = []
          \<and> filter is_store_update (effects_since w (snd (HandleWebhook L h c w))) = []
          \<and> last (effects_since w (snd (HandleWebhook L h c w))) =
              LogPrintf ''Unknown webhook type: %s'' [ArgStr (wd_Type webhookData)]
          \<and> payments (snd (HandleWebhook L h c w)) = payments w
          \<and> refunds (snd (HandleWebhook L h c w)) = refunds w
          \<and> webhooks (snd (HandleWebhook L h c w)) =
              (case exec_at w (n_exec w) of
                 None \<Rightarrow> webhooks w @ [(new_webhook webhookData body)
                            \<lparr>wh_ID := uuid_at w (n_uuid w), wh_CreatedAt := now_at w (n_now w)\<rparr>]
               | Some e \<Rightarrow> webhooks w))"
proof -
  have g1: "GetHeader c ''x-webhook-signature'' = signature"
    and g2: "GetHeader c ''x-webhook-timestamp'' = timestamp"
    using assms(1,3) by (simp_all add: GetHeader_def)
  note acc = g1 assms(2) g2 assms(4) assms(5) assms(6) assms(7)
  let ?new = "effects_since w (snd (HandleWebhook L h c w))"
  have resp: "fst (HandleWebhook L h c w) =
           \<lparr>resp_code = 200, resp_body = [(''status'', HStr ''success'')]\<rparr>"
    using HandleWebhook_accepted[OF acc, of w] by (simp add: c_JSON_def)
  from HandleWebhook_accepted_effects[OF acc, of w] obtain es where
    new: "?new = [ReadBody, CallVerifyWebhookSignature signature timestamp body, CallUnmarshal body,
             CallCreateWebhookLog (new_webhook webhookData body)] @ es"
    and es: "filter is_dispatch es =
               (case known_handler (wd_Type webhookData) of
                  None \<Rightarrow> []
                | Some H \<Rightarrow> [CallHandler H (wd_Data webhookData)])"
    by blast
  have disp: "filter is_dispatch ?new =
               (case known_handler (wd_Type webhookData) of
                  None \<Rightarrow> []
                | Some H \<Rightarrow> [CallHandler H (wd_Data webhookData)])"
    unfolding new using es by (simp add: is_dispatch_def)
  have known: "wd_Type webhookData = ''PAYMENT_SUCCESS_WEBHOOK'' \<longrightarrow>
            filter is_dispatch ?new = [CallHandler PaymentSuccess (wd_Data webhookData)]"
     "wd_Type webhookData = ''PAYMENT_FAILED_WEBHOOK'' \<longrightarrow>
            filter is_dispatch ?new = [CallHandler PaymentFailed (wd_Data webhookData)]"
     "wd_Type webhookData = ''REFUND_STATUS_WEBHOOK'' \<longrightarrow>
            filter is_dispatch ?new = [CallHandler RefundStatus (wd_Data webhookData)]"
     "wd_Type webhookData = ''SETTLEMENT_STATUS_WEBHOOK'' \<longrightarrow>
            filter is_dispatch ?new = [CallHandler SettlementStatus (wd_Data webhookData)]"
    unfolding disp by (simp_all add: known_handler_def)
  have unknown: "filter is_dispatch ?new = []
          \<and> filter is_store_update ?new = []
          \<and> last ?new = LogPrintf ''Unknown webhook type: %s'' [ArgStr (wd_Type webhookData)]
          \<and> payments (snd (HandleWebhook L h c w)) = payments w
          \<and> refunds (snd (HandleWebhook L h c w)) = refunds w
          \<and> webhooks (snd (HandleWebhook L h c w)) =
              (case exec_at w (n_exec w) of
                 None \<Rightarrow> webhooks w @ [(new_webhook webhookData body)
                            \<lparr>wh_ID := uuid_at w (n_uuid w), wh_CreatedAt := now_at w (n_now w)\<rparr>]
               | Some e \<Rightarrow> webhooks w)"
    if u: "known_handler (wd_Type webhookData) = None"
    using HandleWebhook_unknown_type[OF acc u, of w]
    by (simp add: is_dispatch_def is_store_update_def split: option.splits)
  show ?thesis
    using resp known unknown by (simp add: known_handler_None_iff)
qed

text \<open>
  The theorem at a signed event of type SOMETHING_UNKNOWN and at a signed
  PAYMENT_SUCCESS event.
\<close>

theorem HandleWebhook_dispatch_by_type_witness:
  "VerifyWebhookSignature stub_lib (cashfree ex_handler)
       (spec_sign stub_lib ''test_secret'' ''1640995200'' body_unknown) ''1640995200'' body_unknown
   \<and> fst (HandleWebhook stub_lib ex_handler
        (ex_request (spec_sign stub_lib ''test_secret'' ''1640995200'' body_unknown) body_unknown)
        (ex_world (\<lambda>n. None))) =
       \<lparr>resp_code = 200, resp_body = [(''status'', HStr ''success'')]\<rparr>
   \<and> filter is_dispatch (effects (snd (HandleWebhook stub_lib ex_handler
        (ex_request (spec_sign stub_lib ''test_secret'' ''1640995200'' body_unknown) body_unknown)
        (ex_world (\<lambda>n. None))))) = []
   \<and> payments (snd (HandleWebhook stub_lib ex_handler
        (ex_request (spec_sign stub_lib ''test_secret'' ''1640995200'' body_unknown) body_unknown)
        (ex_world (\<lambda>n. None)))) = [ex_payment]
   \<and> map wh_EventType (webhooks (snd (HandleWebhook stub_lib ex_handler
        (ex_request (spec_sign stub_lib ''test_secret'' ''1640995200'' body_unknown) body_unknown)
        (ex_world (\<lambda>n. None))))) = [''SOMETHING_UNKNOWN'']
   \<and> filter is_dispatch (effects (snd (HandleWebhook stub_lib ex_handler
        (ex_request (spec_sign stub_lib ''test_secret'' ''1640995200'' body_success) body_success)
        (ex_world (\<lambda>n. None))))) = [CallHandler PaymentSuccess data_success]"
proof -
  let ?w = "ex_world (\<lambda>n. None)"
  let ?su = "spec_sign stub_lib ''test_secret'' ''1640995200'' body_unknown"
  let ?cu = "ex_request ?su body_unknown"
  let ?ss = "spec_sign stub_lib ''test_secret'' ''1640995200'' body_success"
  let ?cs = "ex_request ?ss body_success"
  have ts: "''1640995200'' \<noteq> []" by simp
  have u1: "req_headers ?cu ''x-webhook-signature'' = Some ?su"
    and u3: "req_headers ?cu ''x-webhook-timestamp'' = Some ''1640995200''"
    and u5: "req_body ?cu = Inr body_unknown"
    by (simp_all add: ex_request_def)
  have u2: "?su \<noteq> []" by (simp add: spec_sign_def stub_lib_def)
  have u6: "VerifyWebhookSignature stub_lib (cashfree ex_handler) ?su ''1640995200'' body_unknown"
    by (simp add: VerifyWebhookSignature_def spec_sign_def stub_lib_def ex_handler_def)
  have u7: "json_Unmarshal stub_lib body_unknown =
      Inr \<lparr>wd_Type = ''SOMETHING_UNKNOWN'', wd_Data = Map.empty,
           wd_Signature = [], wd_Timestamp = []\<rparr>"
    by (simp add: stub_lib_def body_unknown_def body_success_def)
  have s1: "req_headers ?cs ''x-webhook-signature'' = Some ?ss"
    and s3: "req_headers ?cs ''x-webhook-timestamp'' = Some ''1640995200''"
    and s5: "req_body ?cs = Inr body_success"
    by (simp_all add: ex_request_def)
  have s2: "?ss \<noteq> []" by (simp add: spec_sign_def stub_lib_def)
  have s6: "VerifyWebhookSignature stub_lib (cashfree ex_handler) ?ss ''1640995200'' body_success"
    by (simp add: VerifyWebhookSignature_def spec_sign_def stub_lib_def ex_handler_def)
  have s7: "json_Unmarshal stub_lib body_success =
      Inr \<lparr>wd_Type = ''PAYMENT_SUCCESS_WEBHOOK'', wd_Data = data_success,
           wd_Signature = [], wd_Timestamp = []\<rparr>"
    by (simp add: stub_lib_def)
  have e: "\<And>w'. effects_since ?w w' = effects w'"
    by (simp add: effects_since_def ex_world_def)
  show ?thesis
    using HandleWebhook_dispatch_by_type[OF u1 u2 u3 ts u5 u6 u7, of ?w]
      HandleWebhook_dispatch_by_type[OF s1 s2 s3 ts s5 s6 s7, of ?w] u6
    unfolding e by (simp add: ex_world_def new_webhook_def)
qed

section \<open>The status projection\<close>

lemma assert_string_not_string:
  "\<forall>s. x \<noteq> Some (JString s) \<Longrightarrow> assert_string x = ([], False)"
  by (auto simp add: assert_string_def split: option.splits json.splits)

lemma assert_string_string: "assert_string (Some (JString s)) = (s, True)"
  by (simp add: assert_string_def)

lemma assert_string_absent: "assert_string None = ([], False)"
  by (simp add: assert_string_def)

lemma parse_optional_time_cases:
  "time_Parse_RFC3339 L s = Inr t \<Longrightarrow> parse_optional_time L (Some (JString s)) = Some t"
  "time_Parse_RFC3339 L s = Inl e \<Longrightarrow> parse_optional_time L (Some (JString s)) = None"
  "\<forall>s. x \<noteq> Some (JString s) \<Longrightarrow> parse_optional_time L x = None"
  by (auto simp add: parse_optional_time_def assert_string_def split: option.splits json.splits)

lemma hps_without_order:
  assumes "\<forall>s. data ''order_id'' \<noteq> Some (JString s)"
  shows "handlePaymentSuccessWebhook L data w =
           emit (LogPrintln ''Missing order_id in payment success webhook'')
             (emit (CallHandler PaymentSuccess data) w)"
  using assms
  by (simp add: handlePaymentSuccessWebhook_def assert_string_not_string log_Println_def Let_def)

lemma hps_refunds_webhooks:
  "refunds (handlePaymentSuccessWebhook L data w) = refunds w"
  "webhooks (handlePaymentSuccessWebhook L data w) = webhooks w"
  by (simp_all add: handlePaymentSuccessWebhook_def UpdatePaymentStatus_fields emit_fields
        log_Printf_def log_Println_def Let_def split_beta split: option.splits)

text \<open>
  Claim C7. \<open>handlePaymentSuccessWebhook\<close> on the data of an event. When order_id is a
  string, the one update sent to the store is \<open>UpdatePaymentStatus\<close> for that order
  with the status SUCCESS and with pointers to a payment id, a payment method and a
  payment time: the payment id and the method are the strings of cf_payment_id and
  payment_method, and the time is the instant that \<open>time.Parse\<close> reads from the string
  of payment_time, or nil when it reads none or payment_time is not a string. When the
  statement succeeds, exactly the payments of that order carry these four values (and the
  database's time of update); when it fails, the payments are as they were. When order_id
  is absent or not a string, the handler logs one line and returns: no update is sent and
  the payments are as they were. In both cases the handler returns a world: nothing in it
  raises. Refunds and webhooks are never touched.
\<close>

theorem handlePaymentSuccessWebhook_projection:
  "(\<forall>orderID. data ''order_id'' = Some (JString orderID) \<longrightarrow>
      (\<exists>cf pm pt.
          filter is_store_update (effects_since w (handlePaymentSuccessWebhook L data w)) =
            [CallUpdatePaymentStatus orderID ''SUCCESS'' (Some cf) (Some pm) pt]
        \<and> (\<forall>s. data ''cf_payment_id'' = Some (JString s) \<longrightarrow> cf = s)
        \<and> (\<forall>s. data ''payment_method'' = Some (JString s) \<longrightarrow> pm = s)
        \<and> (\<forall>s t. data ''payment_time'' = Some (JString s) \<and> time_Parse_RFC3339 L s = Inr t
              \<longrightarrow> pt = Some t)
        \<and> (\<forall>s e. data ''payment_time'' = Some (JString s) \<and> time_Parse_RFC3339 L s = Inl e
              \<longrightarrow> pt = None)
        \<and> ((\<forall>s. data ''payment_time'' \<noteq> Some (JString s)) \<longrightarrow> pt = None)
        \<and> (exec_at w (n_exec w) = None \<longrightarrow>
             payments (handlePaymentSuccessWebhook L data w) =
               map (\<lambda>p. if p_OrderID p = orderID
                         then p\<lparr>p_Status := ''SUCCESS'', p_CFPaymentID := Some cf,
                                p_PaymentMethod := Some pm, p_PaymentTime := pt,
                                p_UpdatedAt := now_at w (Suc (n_now w))\<rparr>
                         else p) (payments w))
        \<and> (exec_at w (n_exec w) \<noteq> None \<longrightarrow>
             payments (handlePaymentSuccessWebhook L data w) = payments w)))
   \<and> ((\<forall>orderID. data ''order_id'' \<noteq> Some (JString orderID)) \<longrightarrow>
        effects_since w (handlePaymentSuccessWebhook L data w) =
          [CallHandler PaymentSuccess data,
           LogPrintln ''Missing order_id in payment success webhook'']
      \<and> payments (handlePaymentSuccessWebhook L data w) = payments w)
   \<and> refunds (handlePaymentSuccessWebhook L data w) = refunds w
   \<and> webhooks (handlePaymentSuccessWebhook L data w) = webhooks w"
proof (intro conjI allI impI)
  fix orderID
  assume oid: "data ''order_id'' = Some (JString orderID)"
  let ?cf = "fst (assert_string (data ''cf_payment_id''))"
  let ?pm = "fst (assert_string (data ''payment_method''))"
  let ?pt = "parse_optional_time L (data ''payment_time'')"
  have eff: "filter is_store_update (effects_since w (handlePaymentSuccessWebhook L data w)) =
            [CallUpdatePaymentStatus orderID ''SUCCESS'' (Some ?cf) (Some ?pm) ?pt]"
    using oid hps_with_order(1)[where data=data and oid=orderID and L=L and w=w]
    by (simp add: effects_since_def is_store_update_def split: option.splits)
  have cf: "\<forall>s. data ''cf_payment_id'' = Some (JString s) \<longrightarrow> ?cf = s"
    and pm: "\<forall>s. data ''payment_method'' = Some (JString s) \<longrightarrow> ?pm = s"
    by (simp_all add: assert_string_string)
  have pt1: "\<forall>s t. data ''payment_time'' = Some (JString s) \<and> time_Parse_RFC3339 L s = Inr t
              \<longrightarrow> ?pt = Some t"
    and pt2: "\<forall>s e. data ''payment_time'' = Some (JString s) \<and> time_Parse_RFC3339 L s = Inl e
              \<longrightarrow> ?pt = None"
    and pt3: "(\<forall>s. data ''payment_time'' \<noteq> Some (JString s)) \<longrightarrow> ?pt = None"
    by (auto simp add: parse_optional_time_cases)
  have ok: "exec_at w (n_exec w) = None \<longrightarrow>
             payments (handlePaymentSuccessWebhook L data w) =
               map (\<lambda>p. if p_OrderID p = orderID
                         then p\<lparr>p_Status := ''SUCCESS'', p_CFPaymentID := Some ?cf,
                                p_PaymentMethod := Some ?pm, p_PaymentTime := ?pt,
                                p_UpdatedAt := now_at w (Suc (n_now w))\<rparr>
                         else p) (payments w)"
    and ko: "exec_at w (n_exec w) \<noteq> None \<longrightarrow>
             payments (handlePaymentSuccessWebhook L data w) = payments w"
    using oid hps_with_order(2)[where data=data and oid=orderID and L=L and w=w]
    by (auto split: option.splits)
  show "\<exists>cf pm pt.
          filter is_store_update (effects_since w (handlePaymentSuccessWebhook L data w)) =
            [CallUpdatePaymentStatus orderID ''SUCCESS'' (Some cf) (Some pm) pt]
        \<and> (\<forall>s. data ''cf_payment_id'' = Some (JString s) \<longrightarrow> cf = s)
        \<and> (\<forall>s. data ''payment_method'' = Some (JString s) \<longrightarrow> pm = s)
        \<and> (\<forall>s t. data ''payment_time'' = Some (JString s) \<and> time_Parse_RFC3339 L s = Inr t
              \<longrightarrow> pt = Some t)
        \<and> (\<forall>s e. data ''payment_time'' = Some (JString s) \<and> time_Parse_RFC3339 L s = Inl e
              \<longrightarrow> pt = None)
        \<and> ((\<forall>s. data ''payment_time'' \<noteq> Some (JString s)) \<longrightarrow> pt = None)
        \<and> (exec_at w (n_exec w) = None \<longrightarrow>
             payments (handlePaymentSuccessWebhook L data w) =
               map (\<lambda>p. if p_OrderID p = orderID
                         then p\<lparr>p_Status := ''SUCCESS'', p_CFPaymentID := Some cf,
                                p_PaymentMethod := Some pm, p_PaymentTime := pt,
                                p_UpdatedAt := now_at w (Suc (n_now w))\<rparr>
                         else p) (payments w))
        \<and> (exec_at w (n_exec w) \<noteq> None \<longrightarrow>
             payments (handlePaymentSuccessWebhook L data w) = payments w)"
    by (rule exI[of _ ?cf], rule exI[of _ ?pm], rule exI[of _ ?pt], intro conjI)
       (fact eff cf pm pt1 pt2 pt3 ok ko)+
next
  assume no: "\<forall>orderID. data ''order_id'' \<noteq> Some (JString orderID)"
  have run: "handlePaymentSuccessWebhook L data w =
           emit (LogPrintln ''Missing order_id in payment success webhook'')
             (emit (CallHandler PaymentSuccess data) w)"
    using no by (rule hps_without_order[where data=data])
  show "effects_since w (handlePaymentSuccessWebhook L data w) =
          [CallHandler PaymentSuccess data,
           LogPrintln ''Missing order_id in payment success webhook'']"
    by (simp add: run emit_fields effects_since_def)
  show "payments (handlePaymentSuccessWebhook L data w) = payments w"
    by (simp add: run emit_fields)
qed (simp_all add: hps_refunds_webhooks)

text \<open>
  The theorem at the event of the specification (order o1, payment p1 by card) and at an
  event without data.
\<close>

theorem handlePaymentSuccessWebhook_projection_witness:
  "data_success ''order_id'' = Some (JString ''o1'')
   \<and> exec_at (ex_world (\<lambda>n. None)) (n_exec (ex_world (\<lambda>n. None))) = None
   \<and> filter is_store_update (effects (handlePaymentSuccessWebhook stub_lib data_success
        (ex_world (\<lambda>n. None)))) =
       [CallUpdatePaymentStatus ''o1'' ''SUCCESS'' (Some ''p1'') (Some ''card'') (Some 63839664000)]
   \<and> payments (handlePaymentSuccessWebhook stub_lib data_success (ex_world (\<lambda>n. None))) =
       [ex_payment\<lparr>p_Status := ''SUCCESS'', p_CFPaymentID := Some ''p1'',
                   p_PaymentMethod := Some ''card'', p_PaymentTime := Some 63839664000,
                   p_UpdatedAt := 1001\<rparr>]
   \<and> (\<forall>orderID. Map.empty ''order_id'' \<noteq> Some (JString orderID))
   \<and> payments (handlePaymentSuccessWebhook stub_lib Map.empty (ex_world (\<lambda>n. None))) =
       [ex_payment]"
proof -
  let ?w = "ex_world (\<lambda>n. None)"
  have e: "\<And>w'. effects_since ?w w' = effects w'"
    by (simp add: effects_since_def ex_world_def)
  have d: "data_success ''order_id'' = Some (JString ''o1'')"
     "data_success ''cf_payment_id'' = Some (JString ''p1'')"
     "data_success ''payment_method'' = Some (JString ''card'')"
     "data_success ''payment_time'' = Some (JString ''2024-01-01T00:00:00Z'')"
     "time_Parse_RFC3339 stub_lib ''2024-01-01T00:00:00Z'' = Inr 63839664000"
    by (simp_all add: data_success_def stub_lib_def)
  have x: "exec_at ?w (n_exec ?w) = None" "now_at ?w (Suc (n_now ?w)) = 1001"
      "payments ?w = [ex_payment]" "p_OrderID ex_payment = ''o1''"
    by (simp_all add: ex_world_def ex_payment_def)
  from handlePaymentSuccessWebhook_projection[of data_success ?w stub_lib] d x
  obtain cf pm pt where
    "filter is_store_update (effects (handlePaymentSuccessWebhook stub_lib data_success ?w)) =
       [CallUpdatePaymentStatus ''o1'' ''SUCCESS'' (Some cf) (Some pm) pt]"
    "cf = ''p1''" "pm = ''card''" "pt = Some 63839664000"
    "payments (handlePaymentSuccessWebhook stub_lib data_success ?w) =
       [ex_payment\<lparr>p_Status := ''SUCCESS'', p_CFPaymentID := Some cf,
                   p_PaymentMethod := Some pm, p_PaymentTime := pt,
                   p_UpdatedAt := 1001\<rparr>]"
    unfolding e by auto
  moreover have "payments (handlePaymentSuccessWebhook stub_lib Map.empty ?w) = [ex_payment]"
    using handlePaymentSuccessWebhook_projection[of Map.empty ?w stub_lib] x(3) by simp
  ultimately show ?thesis using d(1) x(1) by simp
qed

lemma hpf_with_order:
  assumes "data ''order_id'' = Some (JString oid)"
  shows "effects (handlePaymentFailedWebhook data w) =
           effects w @ [CallHandler PaymentFailed data,
                        CallUpdatePaymentStatus oid ''FAILED'' None None None]
           @ (case exec_at w (n_exec w) of
                None \<Rightarrow> []
              | Some e \<Rightarrow> [LogPrintf ''Failed to update payment status for failed payment: %v'' [ArgErr e]])"
    and "payments (handlePaymentFailedWebhook data w) =
           (case exec_at w (n_exec w) of
              None \<Rightarrow> map (\<lambda>p. if p_OrderID p = oid
                        then p\<lparr>p_Status := ''FAILED'', p_CFPaymentID := None,
                               p_PaymentMethod := None, p_PaymentTime := None,
                               p_UpdatedAt := now_at w (Suc (n_now w))\<rparr>
                        else p) (payments w)
            | Some e \<Rightarrow> payments w)"
  using assms
  by (simp_all add: handlePaymentFailedWebhook_def assert_string_string
        UpdatePaymentStatus_fields emit_fields log_Printf_def log_Println_def Let_def
        split_beta split: option.splits)

lemma hpf_without_order:
  assumes "\<forall>s. data ''order_id'' \<noteq> Some (JString s)"
  shows "handlePaymentFailedWebhook data w =
           emit (LogPrintln ''Missing order_id in payment failed webhook'')
             (emit (CallHandler PaymentFailed data) w)"
  using assms
  by (simp add: handlePaymentFailedWebhook_def assert_string_not_string log_Println_def Let_def)

text \<open>
  Claim C8. \<open>handlePaymentFailedWebhook\<close> on the data of an event. When order_id is a
  string, the one update sent to the store is \<open>UpdatePaymentStatus\<close> for that order
  with the status FAILED and three nil pointers; when the statement succeeds, exactly the
  payments of that order have the status FAILED and no payment id, no payment method and
  no payment time (NULL in the three columns). When order_id is absent or not a string, no
  update is sent: the handler logs one line and the payments are as they were.
\<close>

theorem handlePaymentFailedWebhook_projection:
  "(\<forall>orderID. data ''order_id'' = Some (JString orderID) \<longrightarrow>
        filter is_store_update (effects_since w (handlePaymentFailedWebhook data w)) =
          [CallUpdatePaymentStatus orderID ''FAILED'' None None None]
      \<and> (exec_at w (n_exec w) = None \<longrightarrow>
           payments (handlePaymentFailedWebhook data w) =
             map (\<lambda>p. if p_OrderID p = orderID
                       then p\<lparr>p_Status := ''FAILED'', p_CFPaymentID := None,
                              p_PaymentMethod := None, p_PaymentTime := None,
                              p_UpdatedAt := now_at w (Suc (n_now w))\<rparr>
                       else p) (payments w))
      \<and> (exec_at w (n_exec w) \<noteq> None \<longrightarrow>
           payments (handlePaymentFailedWebhook data w) = payments w))
   \<and> ((\<forall>orderID. data ''order_id'' \<noteq> Some (JString orderID)) \<longrightarrow>
        filter is_store_update (effects_since w (handlePaymentFailedWebhook data w)) = []
      \<and> effects_since w (handlePaymentFailedWebhook data w) =
          [CallHandler PaymentFailed data,
           LogPrintln ''Missing order_id in payment failed webhook'']
      \<and> payments (handlePaymentFailedWebhook data w) = payments w)"
proof (intro conjI allI impI)
  fix orderID
  assume oid: "data ''order_id'' = Some (JString orderID)"
  note eff = hpf_with_order(1)[where data=data and oid=orderID and w=w]
  note pay = hpf_with_order(2)[where data=data and oid=orderID and w=w]
  show "filter is_store_update (effects_since w (handlePaymentFailedWebhook data w)) =
          [CallUpdatePaymentStatus orderID ''FAILED'' None None None]"
    using oid eff by (simp add: effects_since_def is_store_update_def split: option.splits)
  show "payments (handlePaymentFailedWebhook data w) =
             map (\<lambda>p. if p_OrderID p = orderID
                       then p\<lparr>p_Status := ''FAILED'', p_CFPaymentID := None,
                              p_PaymentMethod := None, p_PaymentTime := None,
                              p_UpdatedAt := now_at w (Suc (n_now w))\<rparr>
                       else p) (payments w)"
    if "exec_at w (n_exec w) = None"
    using oid pay that by simp
  show "payments (handlePaymentFailedWebhook data w) = payments w"
    if "exec_at w (n_exec w) \<noteq> None"
    using oid pay that by (auto split: option.splits)
next
  assume no: "\<forall>orderID. data ''order_id'' \<noteq> Some (JString orderID)"
  have run: "handlePaymentFailedWebhook data w =
           emit (LogPrintln ''Missing order_id in payment failed webhook'')
             (emit (CallHandler PaymentFailed data) w)"
    using no by (rule hpf_without_order[where data=data])
  show "filter is_store_update (effects_since w (handlePaymentFailedWebhook data w)) = []"
    by (simp add: run emit_fields effects_since_def is_store_update_def)
  show "effects_since w (handlePaymentFailedWebhook data w) =
          [CallHandler PaymentFailed data,
           LogPrintln ''Missing order_id in payment failed webhook'']"
    by (simp add: run emit_fields effects_since_def)
  show "payments (handlePaymentFailedWebhook data w) = payments w"
    by (simp add: run emit_fields)
qed

text \<open>
  The theorem at an event for the order o1, whose payment had an id, a method and a time,
  and at an event whose order_id is a number.
\<close>

theorem handlePaymentFailedWebhook_projection_witness:
  "data_success ''order_id'' = Some (JString ''o1'')
   \<and> exec_at (ex_world (\<lambda>n. None)) (n_exec (ex_world (\<lambda>n. None))) = None
   \<and> payments (handlePaymentFailedWebhook data_success (ex_world (\<lambda>n. None))) =
       [ex_payment\<lparr>p_Status := ''FAILED'', p_CFPaymentID := None,
                   p_PaymentMethod := None, p_PaymentTime := None,
                   p_UpdatedAt := 1001\<rparr>]
   \<and> (\<forall>orderID. [''order_id'' \<mapsto> JNumber 7] ''order_id'' \<noteq> Some (JString orderID))
   \<and> filter is_store_update
       (effects (handlePaymentFailedWebhook [''order_id'' \<mapsto> JNumber 7] (ex_world (\<lambda>n. None)))) = []
   \<and> payments (handlePaymentFailedWebhook [''order_id'' \<mapsto> JNumber 7] (ex_world (\<lambda>n. None))) =
       [ex_payment]"
proof -
  let ?w = "ex_world (\<lambda>n. None)"
  have e: "\<And>w'. effects_since ?w w' = effects w'"
    by (simp add: effects_since_def ex_world_def)
  have d: "data_success ''order_id'' = Some (JString ''o1'')"
    by (simp add: data_success_def)
  have x: "exec_at ?w (n_exec ?w) = None" "now_at ?w (Suc (n_now ?w)) = 1001"
      "payments ?w = [ex_payment]" "p_OrderID ex_payment = ''o1''"
    by (simp_all add: ex_world_def ex_payment_def)
  have n: "\<forall>orderID. [''order_id'' \<mapsto> JNumber 7] ''order_id'' \<noteq> Some (JString orderID)"
    by simp
  show ?thesis
    using handlePaymentFailedWebhook_projection[of data_success ?w]
      handlePaymentFailedWebhook_projection[of "[''order_id'' \<mapsto> JNumber 7]" ?w] d x
    unfolding e by (simp add: is_store_update_def)
qed

lemma hrs_with_refund:
  assumes "data ''refund_id'' = Some (JString rid)"
  shows "effects (handleRefundStatusWebhook L data w) =
           effects w @ [CallHandler RefundStatus data,
                        CallUpdateRefundStatus rid (fst (assert_string (data ''refund_status'')))
                          (parse_optional_time L (data ''processed_at''))]
           @ (case exec_at w (n_exec w) of
                None \<Rightarrow> []
              | Some e \<Rightarrow> [LogPrintf ''Failed to update refund status: %v'' [ArgErr e]])"
    and "refunds (handleRefundStatusWebhook L data w) =
           (case exec_at w (n_exec w) of
              None \<Rightarrow> map (\<lambda>r. if r_RefundID r = rid
                        then r\<lparr>r_Status := fst (assert_string (data ''refund_status'')),
                               r_ProcessedAt := parse_optional_time L (data ''processed_at''),
                               r_UpdatedAt := now_at w (Suc (n_now w))\<rparr>
                        else r) (refunds w)
            | Some e \<Rightarrow> refunds w)"
  using assms
  by (simp_all add: handleRefundStatusWebhook_def assert_string_string
        UpdateRefundStatus_fields emit_fields log_Printf_def log_Println_def Let_def
        split_beta split: option.splits)

text \<open>
  Claim C10. An optional string that is absent from the data of an event is written as
  the empty string, not as NULL and not left as it was. For PAYMENT_SUCCESS_WEBHOOK with
  order_id a string, the update carries a pointer to a payment id and a pointer to a
  payment method, each the empty string when its key (cf_payment_id, payment_method) is
  absent, and on success the payments of the order hold these values in place of what was
  stored. For REFUND_STATUS_WEBHOOK with refund_id a string and no refund_status, the
  update carries the empty status, and on success the refunds of that id have the empty
  status.
\<close>

theorem absent_strings_written_empty:
  "(\<forall>orderID. data ''order_id'' = Some (JString orderID) \<longrightarrow>
      (\<exists>cf pm pt.
          filter is_store_update (effects_since w (handlePaymentSuccessWebhook L data w)) =
            [CallUpdatePaymentStatus orderID ''SUCCESS'' (Some cf) (Some pm) pt]
        \<and> (data ''cf_payment_id'' = None \<longrightarrow> cf = [])
        \<and> (data ''payment_method'' = None \<longrightarrow> pm = [])
        \<and> (exec_at w (n_exec w) = None \<longrightarrow>
             payments (handlePaymentSuccessWebhook L data w) =
               map (\<lambda>p. if p_OrderID p = orderID
                         then p\<lparr>p_Status := ''SUCCESS'', p_CFPaymentID := Some cf,
                                p_PaymentMethod := Some pm, p_PaymentTime := pt,
                                p_UpdatedAt := now_at w (Suc (n_now w))\<rparr>
                         else p) (payments w))))
   \<and> (\<forall>refundID. data ''refund_id'' = Some (JString refundID) \<and> data ''refund_status'' = None
        \<longrightarrow>
      (\<exists>pa.
          filter is_store_update (effects_since w (handleRefundStatusWebhook L data w)) =
            [CallUpdateRefundStatus refundID [] pa]
        \<and> (exec_at w (n_exec w) = None \<longrightarrow>
             refunds (handleRefundStatusWebhook L data w) =
               map (\<lambda>r. if r_RefundID r = refundID
                         then r\<lparr>r_Status := [], r_ProcessedAt := pa,
                                r_UpdatedAt := now_at w (Suc (n_now w))\<rparr>
                         else r) (refunds w))))"
proof (intro conjI allI impI)
  fix orderID
  assume oid: "data ''order_id'' = Some (JString orderID)"
  let ?cf = "fst (assert_string (data ''cf_payment_id''))"
  let ?pm = "fst (assert_string (data ''payment_method''))"
  let ?pt = "parse_optional_time L (data ''payment_time'')"
  have eff: "filter is_store_update (effects_since w (handlePaymentSuccessWebhook L data w)) =
            [CallUpdatePaymentStatus orderID ''SUCCESS'' (Some ?cf) (Some ?pm) ?pt]"
    using oid hps_with_order(1)[where data=data and oid=orderID and L=L and w=w]
    by (simp add: effects_since_def is_store_update_def split: option.splits)
  have cf: "data ''cf_payment_id'' = None \<longrightarrow> ?cf = []"
    and pm: "data ''payment_method'' = None \<longrightarrow> ?pm = []"
    by (simp_all add: assert_string_absent)
  have ok: "exec_at w (n_exec w) = None \<longrightarrow>
             payments (handlePaymentSuccessWebhook L data w) =
               map (\<lambda>p. if p_OrderID p = orderID
                         then p\<lparr>p_Status := ''SUCCESS'', p_CFPaymentID := Some ?cf,
                                p_PaymentMethod := Some ?pm, p_PaymentTime := ?pt,
                                p_UpdatedAt := now_at w (Suc (n_now w))\<rparr>
                         else p) (payments w)"
    using oid hps_with_order(2)[where data=data and oid=orderID and L=L and w=w]
    by (auto split: option.splits)
  show "\<exists>cf pm pt.
          filter is_store_update (effects_since w (handlePaymentSuccessWebhook L data w)) =
            [CallUpdatePaymentStatus orderID ''SUCCESS'' (Some cf) (Some pm) pt]
        \<and> (data ''cf_payment_id'' = None \<longrightarrow> cf = [])
        \<and> (data ''payment_method'' = None \<longrightarrow> pm = [])
        \<and> (exec_at w (n_exec w) = None \<longrightarrow>
             payments (handlePaymentSuccessWebhook L data w) =
               map (\<lambda>p. if p_OrderID p = orderID
                         then p\<lparr>p_Status := ''SUCCESS'', p_CFPaymentID := Some cf,
                                p_PaymentMethod := Some pm, p_PaymentTime := pt,
                                p_UpdatedAt := now_at w (Suc (n_now w))\<rparr>
                         else p) (payments w))"
    by (rule exI[of _ ?cf], rule exI[of _ ?pm], rule exI[of _ ?pt], intro conjI)
       (fact eff cf pm ok)+
next
  fix refundID
  assume h: "data ''refund_id'' = Some (JString refundID) \<and> data ''refund_status'' = None"
  let ?pa = "parse_optional_time L (data ''processed_at'')"
  have st: "fst (assert_string (data ''refund_status'')) = []"
    using h by (simp add: assert_string_absent)
  have eff: "filter is_store_update (effects_since w (handleRefundStatusWebhook L data w)) =
            [CallUpdateRefundStatus refundID [] ?pa]"
    using h st hrs_with_refund(1)[where data=data and rid=refundID and L=L and w=w]
    by (simp add: effects_since_def is_store_update_def split: option.splits)
  have ok: "exec_at w (n_exec w) = None \<longrightarrow>
             refunds (handleRefundStatusWebhook L data w) =
               map (\<lambda>r. if r_RefundID r = refundID
                         then r\<lparr>r_Status := [], r_ProcessedAt := ?pa,
                                r_UpdatedAt := now_at w (Suc (n_now w))\<rparr>
                         else r) (refunds w)"
    using h st hrs_with_refund(2)[where data=data and rid=refundID and L=L and w=w]
    by (auto split: option.splits)
  show "\<exists>pa.
          filter is_store_update (effects_since w (handleRefundStatusWebhook L data w)) =
            [CallUpdateRefundStatus refundID [] pa]
        \<and> (exec_at w (n_exec w) = None \<longrightarrow>
             refunds (handleRefundStatusWebhook L data w) =
               map (\<lambda>r. if r_RefundID r = refundID
                         then r\<lparr>r_Status := [], r_ProcessedAt := pa,
                                r_UpdatedAt := now_at w (Suc (n_now w))\<rparr>
                         else r) (refunds w))"
    by (rule exI[of _ ?pa], intro conjI) (fact eff ok)+
qed

text \<open>
  The theorem at an event that names the order o1 and the refund r1 and nothing else: the
  payment loses its id "old" and its method "upi" for empty strings, and the refund its
  status PENDING.
\<close>

theorem absent_strings_written_empty_witness:
  "[''order_id'' \<mapsto> JString ''o1'', ''refund_id'' \<mapsto> JString ''r1''] ''order_id''
      = Some (JString ''o1'')
   \<and> [''order_id'' \<mapsto> JString ''o1'', ''refund_id'' \<mapsto> JString ''r1''] ''cf_payment_id'' = None
   \<and> [''order_id'' \<mapsto> JString ''o1'', ''refund_id'' \<mapsto> JString ''r1''] ''refund_status'' = None
   \<and> p_CFPaymentID ex_payment = Some ''old'' \<and> p_PaymentMethod ex_payment = Some ''upi''
   \<and> payments (handlePaymentSuccessWebhook stub_lib
        [''order_id'' \<mapsto> JString ''o1'', ''refund_id'' \<mapsto> JString ''r1''] (ex_world (\<lambda>n. None))) =
       [ex_payment\<lparr>p_Status := ''SUCCESS'', p_CFPaymentID := Some [],
                   p_PaymentMethod := Some [], p_PaymentTime := None,
                   p_UpdatedAt := 1001\<rparr>]
   \<and> r_Status ex_refund = ''PENDING''
   \<and> refunds (handleRefundStatusWebhook stub_lib
        [''order_id'' \<mapsto> JString ''o1'', ''refund_id'' \<mapsto> JString ''r1''] (ex_world (\<lambda>n. None))) =
       [ex_refund\<lparr>r_Status := [], r_ProcessedAt := None, r_UpdatedAt := 1001\<rparr>]"
proof -
  let ?w = "ex_world (\<lambda>n. None)"
  let ?d = "[''order_id'' \<mapsto> JString ''o1'', ''refund_id'' \<mapsto> JString ''r1'']"
  have e: "\<And>w'. effects_since ?w w' = effects w'"
    by (simp add: effects_since_def ex_world_def)
  have d: "?d ''order_id'' = Some (JString ''o1'')" "?d ''refund_id'' = Some (JString ''r1'')"
    "?d ''cf_payment_id'' = None" "?d ''payment_method'' = None" "?d ''refund_status'' = None"
    by simp_all
  have x: "exec_at ?w (n_exec ?w) = None" "now_at ?w (Suc (n_now ?w)) = 1001"
      "payments ?w = [ex_payment]" "p_OrderID ex_payment = ''o1''"
      "refunds ?w = [ex_refund]" "r_RefundID ex_refund = ''r1''"
    by (simp_all add: ex_world_def ex_payment_def ex_refund_def)
  have v: "p_CFPaymentID ex_payment = Some ''old''" "p_PaymentMethod ex_payment = Some ''upi''"
    "r_Status ex_refund = ''PENDING''"
    by (simp_all add: ex_payment_def ex_refund_def)
  note inst = absent_strings_written_empty[of ?d ?w stub_lib, unfolded e]
  from inst d x obtain cf pm pt where
    p: "filter is_store_update (effects (handlePaymentSuccessWebhook stub_lib ?d ?w)) =
       [CallUpdatePaymentStatus ''o1'' ''SUCCESS'' (Some cf) (Some pm) pt]"
    "cf = []" "pm = []"
    "payments (handlePaymentSuccessWebhook stub_lib ?d ?w) =
       [ex_payment\<lparr>p_Status := ''SUCCESS'', p_CFPaymentID := Some cf,
                   p_PaymentMethod := Some pm, p_PaymentTime := pt,
                   p_UpdatedAt := 1001\<rparr>]"
    by auto
  have "filter is_store_update (effects (handlePaymentSuccessWebhook stub_lib ?d ?w)) =
       [CallUpdatePaymentStatus ''o1'' ''SUCCESS'' (Some []) (Some []) None]"
    using hps_with_order(1)[where data="?d" and oid="''o1''" and L=stub_lib and w="?w"] x(1)
    by (simp add: assert_string_absent parse_optional_time_cases(3) is_store_update_def
          ex_world_def)
  with p have pt: "pt = None" by simp
  from inst d x obtain pa where
    r: "filter is_store_update (effects (handleRefundStatusWebhook stub_lib ?d ?w)) =
            [CallUpdateRefundStatus ''r1'' [] pa]"
     "refunds (handleRefundStatusWebhook stub_lib ?d ?w) =
        [ex_refund\<lparr>r_Status := [], r_ProcessedAt := pa, r_UpdatedAt := 1001\<rparr>]"
    by auto
  have "filter is_store_update (effects (handleRefundStatusWebhook stub_lib ?d ?w)) =
            [CallUpdateRefundStatus ''r1'' [] None]"
    using hrs_with_refund(1)[where data="?d" and rid="''r1''" and L=stub_lib and w="?w"] x(1)
    by (simp add: assert_string_absent parse_optional_time_cases(3) is_store_update_def
          ex_world_def)
  with r have pa: "pa = None" by simp
  show ?thesis using p(2,3,4) pt r(2) pa d v by simp
qed

section \<open>Listing payments: the page that is served\<close>

text \<open>
  What \<open>Atoi\<close> returns, against the reading of a string as a numeral: an error on
  every string that is not numeric, the value on a numeric string within 64 bits, and a
  range error beyond.
\<close>

lemma foldl_digits_ge: "n \<le> foldl (\<lambda>n c. n * 10 + digit_of c) n ds"
proof (induction ds arbitrary: n)
  case Nil
  show ?case by simp
next
  case (Cons c cs)
  have "n \<le> n * 10 + digit_of c" by simp
  also have "\<dots> \<le> foldl (\<lambda>n c. n * 10 + digit_of c) (n * 10 + digit_of c) cs"
    by (rule Cons.IH)
  finally show ?case by simp
qed

lemma ParseUint_loop_digits:
  "list_all is_digit ds \<Longrightarrow> n \<le> maxUint64 \<Longrightarrow>
   ParseUint_loop n ds =
     (if foldl (\<lambda>n c. n * 10 + digit_of c) n ds \<le> maxUint64
      then (foldl (\<lambda>n c. n * 10 + digit_of c) n ds, None)
      else (maxUint64, Some ErrRange))"
proof (induction ds arbitrary: n)
  case Nil
  then show ?case by simp
next
  case (Cons c cs)
  let ?n1 = "n * 10 + digit_of c"
  from Cons.prems have dc: "is_digit c" and dcs: "list_all is_digit cs" by simp_all
  have ge: "?n1 \<le> foldl (\<lambda>n c. n * 10 + digit_of c) ?n1 cs" by (rule foldl_digits_ge)
  show ?case
  proof (cases "n \<ge> maxUint64 div 10 + 1")
    case True
    then have "?n1 > maxUint64" by (simp add: maxUint64_def)
    with ge True dc show ?thesis by simp
  next
    case False
    show ?thesis
    proof (cases "?n1 > maxUint64")
      case True
      with ge False dc show ?thesis by (simp add: Let_def)
    next
      case big: False
      then have "?n1 \<le> maxUint64" by simp
      from Cons.IH[OF dcs this] big False dc show ?thesis by (simp add: Let_def)
    qed
  qed
qed

lemma ParseUint_loop_error_value:
  "snd (ParseUint_loop n ds) = Some ErrRange \<Longrightarrow> fst (ParseUint_loop n ds) = maxUint64"
  by (induction ds arbitrary: n) (auto simp add: Let_def split: if_splits)

lemma ParseUint_loop_nondigit:
  "\<not> list_all is_digit ds \<Longrightarrow> snd (ParseUint_loop n ds) \<noteq> None"
  by (induction ds arbitrary: n) (auto simp add: Let_def split: if_splits)

lemma ParseInt_unsigned_part:
  "ParseInt s =
     (if s = [] then (0, Some ErrSyntax)
      else (let neg = (hd s = CHR ''-'');
                un = fst (ParseUint (unsigned_part s));
                err = snd (ParseUint (unsigned_part s))
            in if err = Some ErrSyntax then (0, err)
               else if \<not> neg \<and> un \<ge> 9223372036854775808 then (9223372036854775807, Some ErrRange)
               else if neg \<and> un > 9223372036854775808 then (- 9223372036854775808, Some ErrRange)
               else (if neg then - int un else int un, None)))"
  by (cases s) (simp_all add: ParseInt_def unsigned_part_def Let_def split_beta)

lemma Atoi_not_numeric: "\<not> numeric s \<Longrightarrow> snd (Atoi s) \<noteq> None"
proof -
  assume nn: "\<not> numeric s"
  show ?thesis
  proof (cases "unsigned_part s = []")
    case True
    then show ?thesis
      by (simp add: Atoi_def ParseInt_unsigned_part ParseUint_def Let_def)
  next
    case False
    with nn have nd: "\<not> list_all is_digit (unsigned_part s)" by (simp add: numeric_def)
    let ?r = "ParseUint_loop 0 (unsigned_part s)"
    have pu: "ParseUint (unsigned_part s) = ?r" using False by (simp add: ParseUint_def)
    from ParseUint_loop_nondigit[OF nd, of 0] obtain e where e: "snd ?r = Some e"
      by (cases "snd ?r") auto
    show ?thesis
    proof (cases e)
      case ErrSyntax
      with e pu show ?thesis by (simp add: Atoi_def ParseInt_unsigned_part Let_def)
    next
      case ErrRange
      with e have "fst ?r = maxUint64" by (simp add: ParseUint_loop_error_value)
      with e ErrRange pu show ?thesis
        by (simp add: Atoi_def ParseInt_unsigned_part Let_def maxUint64_def)
    qed
  qed
qed

lemma Atoi_numeric:
  assumes "numeric s"
  shows "Atoi s =
     (if numeric_value s < - 9223372036854775808 then (- 9223372036854775808, Some ErrRange)
      else if 9223372036854775808 \<le> numeric_value s then (9223372036854775807, Some ErrRange)
      else (numeric_value s, None))"
proof -
  from assms have ne: "unsigned_part s \<noteq> []" and dg: "list_all is_digit (unsigned_part s)"
    by (simp_all add: numeric_def)
  from ne have s: "s \<noteq> []" by (auto simp add: unsigned_part_def)
  have pu: "ParseUint (unsigned_part s) =
     (if digits_value (unsigned_part s) \<le> maxUint64
      then (digits_value (unsigned_part s), None) else (maxUint64, Some ErrRange))"
    using ne ParseUint_loop_digits[OF dg, of 0] by (simp add: ParseUint_def digits_value_def)
  have nv: "numeric_value s =
     (if hd s = CHR ''-'' then - int (digits_value (unsigned_part s))
      else int (digits_value (unsigned_part s)))"
    using s by (cases s) (simp_all add: numeric_value_def)
  show ?thesis
    by (simp add: Atoi_def ParseInt_unsigned_part s pu nv Let_def maxUint64_def)
qed

lemma repo_GetAllPayments_fields:
  "fst (repo_GetAllPayments limit offset w) =
     (case exec_at w (n_exec w) of
        None \<Rightarrow> Inr (take (nat limit) (drop (nat offset) (rev (sort_key p_CreatedAt (payments w)))))
      | Some e \<Rightarrow> Inl e)"
  "effects (snd (repo_GetAllPayments limit offset w)) = effects w @ [CallGetAllPayments limit offset]"
  by (simp_all add: repo_GetAllPayments_def prim_defs Let_def split: option.splits prod.splits)

lemma GetAllPayments_run:
  fixes c w
  defines "la \<equiv> Atoi (DefaultQuery c ''limit'' ''10'')"
    and "oa \<equiv> Atoi (DefaultQuery c ''offset'' ''0'')"
  defines "l1 \<equiv> (if snd la \<noteq> None \<or> fst la \<le> 0 then 10 else fst la)"
  defines "limit \<equiv> (if l1 > 100 then 100 else l1)"
    and "offset \<equiv> (if snd oa \<noteq> None \<or> fst oa < 0 then 0 else fst oa)"
  shows "effects (snd (GetAllPayments c w)) =
           effects w @ CallGetAllPayments limit offset #
             (case exec_at w (n_exec w) of
                None \<Rightarrow> []
              | Some e \<Rightarrow> [LogPrintf ''Failed to get payments: %v'' [ArgErr e]])"
    and "fst (GetAllPayments c w) =
           (case exec_at w (n_exec w) of
              None \<Rightarrow>
                (let ps = take (nat limit) (drop (nat offset) (rev (sort_key p_CreatedAt (payments w))))
                 in \<lparr>resp_code = 200,
                     resp_body = [(''payments'', HPayments ps), (''limit'', HInt limit),
                                  (''offset'', HInt offset), (''count'', HInt (int (length ps)))]\<rparr>)
            | Some e \<Rightarrow>
                \<lparr>resp_code = 500, resp_body = [(''error'', HStr ''Failed to retrieve payments'')]\<rparr>)"
  unfolding la_def oa_def l1_def limit_def offset_def
  by (simp_all add: GetAllPayments_def repo_GetAllPayments_fields Let_def split_beta c_JSON_def
        log_Printf_def emit_fields split: option.splits split del: if_split cong: if_cong)

lemma clamp_limit_cases:
  fixes ls :: string
  defines "la \<equiv> Atoi ls"
  defines "l1 \<equiv> (if snd la \<noteq> None \<or> fst la \<le> 0 then 10 else fst la)"
  defines "limit \<equiv> (if l1 > 100 then 100 else l1)"
  shows "(\<not> numeric ls \<or> numeric_value ls \<le> 0 \<longrightarrow> limit = 10)
    \<and> (numeric ls \<and> 0 < numeric_value ls \<and> numeric_value ls \<le> 100 \<longrightarrow> limit = numeric_value ls)
    \<and> (numeric ls \<and> 100 < numeric_value ls \<and> numeric_value ls < 9223372036854775808
           \<longrightarrow> limit = 100)
    \<and> (numeric ls \<and> 9223372036854775808 \<le> numeric_value ls \<longrightarrow> limit = 10)
    \<and> 1 \<le> limit \<and> limit \<le> 100"
proof (cases "numeric ls")
  case True
  show ?thesis
    unfolding la_def l1_def limit_def by (simp add: Atoi_numeric[OF True] True)
next
  case False
  show ?thesis
    unfolding la_def l1_def limit_def by (simp add: Atoi_not_numeric[OF False] False)
qed

lemma clamp_offset_cases:
  fixes os :: string
  defines "oa \<equiv> Atoi os"
  defines "offset \<equiv> (if snd oa \<noteq> None \<or> fst oa < 0 then 0 else fst oa)"
  shows "(\<not> numeric os \<or> numeric_value os < 0 \<longrightarrow> offset = 0)
    \<and> (numeric os \<and> 0 \<le> numeric_value os \<and> numeric_value os < 9223372036854775808
           \<longrightarrow> offset = numeric_value os)
    \<and> (numeric os \<and> 9223372036854775808 \<le> numeric_value os \<longrightarrow> offset = 0)
    \<and> 0 \<le> offset"
proof (cases "numeric os")
  case True
  show ?thesis
    unfolding oa_def offset_def by (simp add: Atoi_numeric[OF True] True)
next
  case False
  show ?thesis
    unfolding oa_def offset_def by (simp add: Atoi_not_numeric[OF False] False)
qed

lemma numeric_examples:
  "numeric ''9223372036854775808''" "numeric_value ''9223372036854775808'' = 9223372036854775808"
  "numeric ''250''" "numeric_value ''250'' = 250"
  "numeric ''-3''" "numeric_value ''-3'' = - 3"
  by (simp_all add: numeric_def numeric_value_def unsigned_part_def digits_value_def
        is_digit_def digit_of_def)

text \<open>
  Claim C9, as the code has it. The limit and the offset sent to the repository are
  clamped: a limit that is not numeric or not positive becomes 10; a numeric limit from 1
  to 100 is kept; a numeric limit above 100 that fits in 64 bits becomes 100; a numeric
  limit of 2^63 or more is a range error of \<open>Atoi\<close> and becomes 10, like any other
  error. An offset that is not numeric or is negative becomes 0, and a numeric offset from
  0 that fits in 64 bits is kept. The limit is always between 1 and 100. When the query
  succeeds the response is 200 and echoes this limit and this offset, with at most limit
  payments, hence at most 100; when it fails the response is 500.
\<close>

theorem GetAllPayments_pagination:
  assumes "limitStr = DefaultQuery c ''limit'' ''10''"
    and "offsetStr = DefaultQuery c ''offset'' ''0''"
  shows "\<exists>limit offset rest.
      effects_since w (snd (GetAllPayments c w)) = CallGetAllPayments limit offset # rest
    \<and> (\<not> numeric limitStr \<or> numeric_value limitStr \<le> 0 \<longrightarrow> limit = 10)
    \<and> (numeric limitStr \<and> 0 < numeric_value limitStr \<and> numeric_value limitStr \<le> 100
          \<longrightarrow> limit = numeric_value limitStr)
    \<and> (numeric limitStr \<and> 100 < numeric_value limitStr
          \<and> numeric_value limitStr < 9223372036854775808 \<longrightarrow> limit = 100)
    \<and> (numeric limitStr \<and> 9223372036854775808 \<le> numeric_value limitStr \<longrightarrow> limit = 10)
    \<and> (\<not> numeric offsetStr \<or> numeric_value offsetStr < 0 \<longrightarrow> offset = 0)
    \<and> (numeric offsetStr \<and> 0 \<le> numeric_value offsetStr
          \<and> numeric_value offsetStr < 9223372036854775808 \<longrightarrow> offset = numeric_value offsetStr)
    \<and> 1 \<le> limit \<and> limit \<le> 100 \<and> 0 \<le> offset
    \<and> (exec_at w (n_exec w) = None \<longrightarrow>
         (\<exists>ps. fst (GetAllPayments c w) =
                 \<lparr>resp_code = 200,
                  resp_body = [(''payments'', HPayments ps), (''limit'', HInt limit),
                               (''offset'', HInt offset), (''count'', HInt (int (length ps)))]\<rparr>
             \<and> int (length ps) \<le> limit \<and> length ps \<le> 100))
    \<and> (exec_at w (n_exec w) \<noteq> None \<longrightarrow>
         fst (GetAllPayments c w) =
           \<lparr>resp_code = 500, resp_body = [(''error'', HStr ''Failed to retrieve payments'')]\<rparr>)"
proof -
  let ?la = "Atoi limitStr" and ?oa = "Atoi offsetStr"
  let ?l1 = "if snd ?la \<noteq> None \<or> fst ?la \<le> 0 then 10 else fst ?la"
  let ?limit = "if ?l1 > 100 then 100 else ?l1"
  let ?offset = "if snd ?oa \<noteq> None \<or> fst ?oa < 0 then 0 else fst ?oa"
  let ?rest = "case exec_at w (n_exec w) of
                None \<Rightarrow> []
              | Some e \<Rightarrow> [LogPrintf ''Failed to get payments: %v'' [ArgErr e]]"
  let ?ps = "take (nat ?limit) (drop (nat ?offset) (rev (sort_key p_CreatedAt (payments w))))"
  note run = GetAllPayments_run[of c w, folded assms]
  have lim:
    "\<not> numeric limitStr \<or> numeric_value limitStr \<le> 0 \<longrightarrow> ?limit = 10"
    "numeric limitStr \<and> 0 < numeric_value limitStr \<and> numeric_value limitStr \<le> 100
          \<longrightarrow> ?limit = numeric_value limitStr"
    "numeric limitStr \<and> 100 < numeric_value limitStr
          \<and> numeric_value limitStr < 9223372036854775808 \<longrightarrow> ?limit = 100"
    "numeric limitStr \<and> 9223372036854775808 \<le> numeric_value limitStr \<longrightarrow> ?limit = 10"
    "1 \<le> ?limit \<and> ?limit \<le> 100"
    using clamp_limit_cases[of limitStr] by blast+
  have off:
    "\<not> numeric offsetStr \<or> numeric_value offsetStr < 0 \<longrightarrow> ?offset = 0"
    "numeric offsetStr \<and> 0 \<le> numeric_value offsetStr
          \<and> numeric_value offsetStr < 9223372036854775808 \<longrightarrow> ?offset = numeric_value offsetStr"
    "numeric offsetStr \<and> 9223372036854775808 \<le> numeric_value offsetStr \<longrightarrow> ?offset = 0"
    "0 \<le> ?offset"
    using clamp_offset_cases[of offsetStr] by blast+
  have eff: "effects_since w (snd (GetAllPayments c w)) = CallGetAllPayments ?limit ?offset # ?rest"
    using run(1) by (simp add: effects_since_def)
  have len: "int (length ?ps) \<le> ?limit" "length ?ps \<le> 100"
    using lim(5) by (simp_all split del: if_split) linarith+
  have ok: "exec_at w (n_exec w) = None \<longrightarrow>
         (\<exists>ps. fst (GetAllPayments c w) =
                 \<lparr>resp_code = 200,
                  resp_body = [(''payments'', HPayments ps), (''limit'', HInt ?limit),
                               (''offset'', HInt ?offset), (''count'', HInt (int (length ps)))]\<rparr>
             \<and> int (length ps) \<le> ?limit \<and> length ps \<le> 100)"
  proof
    assume x: "exec_at w (n_exec w) = None"
    have "fst (GetAllPayments c w) =
                 \<lparr>resp_code = 200,
                  resp_body = [(''payments'', HPayments ?ps), (''limit'', HInt ?limit),
                               (''offset'', HInt ?offset), (''count'', HInt (int (length ?ps)))]\<rparr>"
      using run(2) x by (simp add: Let_def split del: if_split)
    with len show "\<exists>ps. fst (GetAllPayments c w) =
                 \<lparr>resp_code = 200,
                  resp_body = [(''payments'', HPayments ps), (''limit'', HInt ?limit),
                               (''offset'', HInt ?offset), (''count'', HInt (int (length ps)))]\<rparr>
             \<and> int (length ps) \<le> ?limit \<and> length ps \<le> 100"
      by (intro exI[of _ ?ps] conjI)
  qed
  have ko: "exec_at w (n_exec w) \<noteq> None \<longrightarrow>
         fst (GetAllPayments c w) =
           \<lparr>resp_code = 500, resp_body = [(''error'', HStr ''Failed to retrieve payments'')]\<rparr>"
    using run(2) by (auto split: option.splits)
  have b: "1 \<le> ?limit" "?limit \<le> 100" using lim(5) by simp_all
  show ?thesis
    by (rule exI[of _ ?limit], rule exI[of _ ?offset], rule exI[of _ ?rest], intro conjI)
       (fact eff lim(1) lim(2) lim(3) lim(4) off(1) off(2) off(4) b ok ko)+
qed

text \<open>The theorem at the query \<open>limit=250&offset=-3\<close>: the page served is 100 from 0.\<close>

theorem GetAllPayments_pagination_witness:
  "DefaultQuery req_page ''limit'' ''10'' = ''250''
   \<and> DefaultQuery req_page ''offset'' ''0'' = ''-3''
   \<and> numeric ''250'' \<and> 100 < numeric_value ''250'' \<and> numeric_value ''250'' < 9223372036854775808
   \<and> numeric ''-3'' \<and> numeric_value ''-3'' < 0
   \<and> exec_at ex_world_ok (n_exec ex_world_ok) = None
   \<and> (\<exists>ps. fst (GetAllPayments req_page ex_world_ok) =
              \<lparr>resp_code = 200,
               resp_body = [(''payments'', HPayments ps), (''limit'', HInt 100),
                            (''offset'', HInt 0), (''count'', HInt (int (length ps)))]\<rparr>
          \<and> length ps \<le> 100)"
proof -
  have q: "''250'' = DefaultQuery req_page ''limit'' ''10''"
      "''-3'' = DefaultQuery req_page ''offset'' ''0''"
    by (simp_all add: DefaultQuery_def req_page_def)
  have x: "exec_at ex_world_ok (n_exec ex_world_ok) = None"
    by (simp add: ex_world_ok_def ex_world_def)
  from GetAllPayments_pagination[OF q, of ex_world_ok] numeric_examples x
  show ?thesis using q by auto
qed

text \<open>
  Claim C9 as it is stated ("a limit greater than 100 becomes 100") fails at the query
  \<open>limit=9223372036854775808\<close>: the value is numeric and greater than 100, and the
  limit served and echoed is 10.
\<close>

theorem GetAllPayments_huge_limit_counterexample:
  "DefaultQuery req_huge_limit ''limit'' ''10'' = ''9223372036854775808''
   \<and> numeric ''9223372036854775808''
   \<and> 100 < numeric_value ''9223372036854775808''
   \<and> fst (GetAllPayments req_huge_limit ex_world_ok) =
       \<lparr>resp_code = 200,
        resp_body = [(''payments'', HPayments [ex_payment]), (''limit'', HInt 10),
                     (''offset'', HInt 0), (''count'', HInt 1)]\<rparr>
   \<and> HInt 10 \<noteq> HInt 100"
proof -
  have q: "DefaultQuery req_huge_limit ''limit'' ''10'' = ''9223372036854775808''"
      "DefaultQuery req_huge_limit ''offset'' ''0'' = ''0''"
    by (simp_all add: DefaultQuery_def req_huge_limit_def)
  have a: "Atoi ''9223372036854775808'' = (9223372036854775807, Some ErrRange)"
    by (simp add: Atoi_def ParseInt_def ParseUint_def is_digit_def digit_of_def maxUint64_def
          Let_def)
  have b: "Atoi ''0'' = (0, None)"
    by (simp add: Atoi_def ParseInt_def ParseUint_def is_digit_def digit_of_def maxUint64_def
          Let_def)
  have r: "fst (GetAllPayments req_huge_limit ex_world_ok) =
       \<lparr>resp_code = 200,
        resp_body = [(''payments'', HPayments [ex_payment]), (''limit'', HInt 10),
                     (''offset'', HInt 0), (''count'', HInt 1)]\<rparr>"
    by (simp add: GetAllPayments_def q a b repo_GetAllPayments_def emit_def db_Exec_def c_JSON_def
          ex_world_ok_def ex_world_def Let_def)
  show ?thesis using q(1) numeric_examples(1,2) r by simp
qed

section \<open>Signature verification: what the comparison gives\<close>

text \<open>
  \<open>VerifyWebhookSignature\<close> accepts exactly one signature for a timestamp and a body,
  the one \<open>spec_sign\<close> computes; so it accepts what was signed, and it rejects that
  signature with any one byte changed. Whether it rejects the signature of one message
  when another timestamp or body is presented is the question whether the two messages
  have different encoded digests: that is a property of HMAC-SHA256 and of base64, about
  which the code of the repository says nothing, and it is left open here.
\<close>

lemma VerifyWebhookSignature_iff_sign:
  "VerifyWebhookSignature L c signature timestamp payload \<longleftrightarrow>
     signature = spec_sign L (ClientSecret c) timestamp payload"
  by (auto simp add: VerifyWebhookSignature_def spec_sign_def Let_def)

lemma sign_verifies:
  "VerifyWebhookSignature L c (spec_sign L (ClientSecret c) timestamp payload) timestamp payload"
  by (simp add: VerifyWebhookSignature_iff_sign)

lemma mutated_signature_rejected:
  assumes "signature = spec_sign L (ClientSecret c) timestamp payload"
    and "i < length signature" and "b \<noteq> signature ! i"
  shows "\<not> VerifyWebhookSignature L c (signature[i := b]) timestamp payload"
proof -
  have "signature[i := b] ! i = b" using assms(2) by simp
  with assms(3) have "signature[i := b] \<noteq> signature" by metis
  with assms(1) show ?thesis by (simp add: VerifyWebhookSignature_iff_sign)
qed

lemma mutated_message_rejected_iff:
  "\<not> VerifyWebhookSignature L c (spec_sign L (ClientSecret c) timestamp payload) timestamp' payload'
     \<longleftrightarrow>
   base64_EncodeToString L (hmac_sha256 L (ClientSecret c) (timestamp' @ payload'))
     \<noteq> base64_EncodeToString L (hmac_sha256 L (ClientSecret c) (timestamp @ payload))"
  by (auto simp add: VerifyWebhookSignature_def spec_sign_def Let_def)

end
